theory Spec2Isabelle
  imports Main "HOL-Library.AList"
begin

section \<open>Python values shared by the modules\<close>

text \<open>
  A raised Python exception is carried as a value: FastAPI's \<open>HTTPException\<close> with its
  status code and detail, any other exception with its class name and message.
  Strings are byte strings (UTF-8), so a non-ASCII letter of a source literal is
  written as its bytes.
\<close>

datatype py_exception =
    HTTPException (status_code: nat) (detail: string)
  | PyException (exc_type: string) (exc_msg: string)

fun str_nat :: "nat \<Rightarrow> string" where
  "str_nat n = (if n < 10 then [''0123456789'' ! n]
                else str_nat (n div 10) @ [''0123456789'' ! (n mod 10)])"

declare str_nat.simps [simp del]

fun str_exc :: "py_exception \<Rightarrow> string" where
  "str_exc (HTTPException code d) = str_nat code @ '': '' @ d"
| "str_exc (PyException ty msg) = msg"

definition is_space :: "char \<Rightarrow> bool" where
  "is_space c = (c \<in> set [CHR '' '', CHR 0x09, CHR 0x0A, CHR 0x0B, CHR 0x0C, CHR 0x0D])"

definition strip :: "string \<Rightarrow> string" where
  "strip s = rev (dropWhile is_space (rev (dropWhile is_space s)))"

definition str_int :: "int \<Rightarrow> string" where
  "str_int i = (if i < 0 then CHR ''-'' # str_nat (nat (- i)) else str_nat (nat i))"

section \<open>Task store: app/utils/async\_report\_manager.py\<close>

datatype ReportStatus = PENDING | COMPLETED | FAILED

definition REPORT_EXPIRATION_HOURS :: int where
  "REPORT_EXPIRATION_HOURS = 1"

definition MAX_CONCURRENT_REPORTS :: nat where
  "MAX_CONCURRENT_REPORTS = 1"

text \<open>
  The directory \<open>TEMP_REPORTS_DIR\<close>: its regular files by name, each with its content
  and modification time (seconds), and the names on which a mutating system call
  (open for writing, touch, unlink) raises \<open>OSError\<close>.
\<close>

record file_entry =
  content :: string
  mtime :: int

record reports_dir =
  entries :: "(string \<times> file_entry) list"
  faulty :: "string list"

definition path_exists :: "reports_dir \<Rightarrow> string \<Rightarrow> bool" where
  "path_exists d p = (map_of (entries d) p \<noteq> None)"

definition write_file :: "reports_dir \<Rightarrow> string \<Rightarrow> string \<Rightarrow> int \<Rightarrow> reports_dir option" where
  "write_file d p c now =
     (if p \<in> set (faulty d) then None
      else Some (d\<lparr>entries := AList.update p \<lparr>content = c, mtime = now\<rparr> (entries d)\<rparr>))"

definition touch :: "reports_dir \<Rightarrow> string \<Rightarrow> int \<Rightarrow> reports_dir option" where
  "touch d p now =
     (if p \<in> set (faulty d) then None
      else Some (d\<lparr>entries := AList.update p
              (case map_of (entries d) p of
                 None \<Rightarrow> \<lparr>content = [], mtime = now\<rparr>
               | Some f \<Rightarrow> f\<lparr>mtime := now\<rparr>) (entries d)\<rparr>))"

definition unlink :: "reports_dir \<Rightarrow> string \<Rightarrow> reports_dir option" where
  "unlink d p =
     (if p \<in> set (faulty d) then None
      else if path_exists d p then Some (d\<lparr>entries := AList.delete p (entries d)\<rparr>)
      else None)"

fun get_report_path :: "string \<Rightarrow> ReportStatus \<Rightarrow> string" where
  "get_report_path task_id PENDING = task_id @ ''.pending''"
| "get_report_path task_id COMPLETED = task_id @ ''.xlsx''"
| "get_report_path task_id FAILED = task_id @ ''.failed''"

declare get_report_path.simps [simp del]

definition create_pending_report :: "reports_dir \<Rightarrow> string \<Rightarrow> int \<Rightarrow> bool \<times> reports_dir" where
  "create_pending_report d task_id now =
     (case touch d (get_report_path task_id PENDING) now of
        Some d' \<Rightarrow> (True, d')
      | None \<Rightarrow> (False, d))"

text \<open>
  \<open>mark_report_completed\<close> and \<open>mark_report_failed\<close> perform up to two file operations.
  The \<open>_ops\<close> functions return the directory after each operation that was carried out,
  in order; the functions themselves return the last of these states.
\<close>

definition mark_report_completed_ops ::
  "reports_dir \<Rightarrow> string \<Rightarrow> string \<Rightarrow> int \<Rightarrow> bool \<times> reports_dir list" where
  "mark_report_completed_ops d task_id file_content now =
     (let pending_path = get_report_path task_id PENDING;
          completed_path = get_report_path task_id COMPLETED
      in case write_file d completed_path file_content now of
           None \<Rightarrow> (False, [])
         | Some d1 \<Rightarrow>
             if path_exists d1 pending_path
             then (case unlink d1 pending_path of
                     None \<Rightarrow> (False, [d1])
                   | Some d2 \<Rightarrow> (True, [d1, d2]))
             else (True, [d1]))"

definition mark_report_completed ::
  "reports_dir \<Rightarrow> string \<Rightarrow> string \<Rightarrow> int \<Rightarrow> bool \<times> reports_dir" where
  "mark_report_completed d task_id file_content now =
     (case mark_report_completed_ops d task_id file_content now of
        (ok, ds) \<Rightarrow> (ok, last (d # ds)))"

definition mark_report_failed_ops ::
  "reports_dir \<Rightarrow> string \<Rightarrow> string \<Rightarrow> int \<Rightarrow> bool \<times> reports_dir list" where
  "mark_report_failed_ops d task_id error_message now =
     (let pending_path = get_report_path task_id PENDING;
          failed_path = get_report_path task_id FAILED
      in case write_file d failed_path
                (if error_message = [] then ''Report generation failed'' else error_message) now of
           None \<Rightarrow> (False, [])
         | Some d1 \<Rightarrow>
             if path_exists d1 pending_path
             then (case unlink d1 pending_path of
                     None \<Rightarrow> (False, [d1])
                   | Some d2 \<Rightarrow> (True, [d1, d2]))
             else (True, [d1]))"

definition mark_report_failed ::
  "reports_dir \<Rightarrow> string \<Rightarrow> string \<Rightarrow> int \<Rightarrow> bool \<times> reports_dir" where
  "mark_report_failed d task_id error_message now =
     (case mark_report_failed_ops d task_id error_message now of
        (ok, ds) \<Rightarrow> (ok, last (d # ds)))"

definition get_report_status :: "reports_dir \<Rightarrow> string \<Rightarrow> ReportStatus option \<times> string" where
  "get_report_status d task_id =
     (let pending_path = get_report_path task_id PENDING;
          completed_path = get_report_path task_id COMPLETED;
          failed_path = get_report_path task_id FAILED
      in if path_exists d completed_path then (Some COMPLETED, ''Reporte listo para descargar'')
         else if path_exists d pending_path
           then (Some PENDING, ''Generando reporte, por favor espere...'')
         else if path_exists d failed_path
           then (case map_of (entries d) failed_path of
                   Some f \<Rightarrow> (Some FAILED,
                      if content f = [] then ''Error al generar el reporte'' else content f)
                 | None \<Rightarrow> (Some FAILED, ''Error al generar el reporte''))
         else (None, ''Reporte no encontrado o expirado''))"

definition ends_with :: "string \<Rightarrow> string \<Rightarrow> bool" where
  "ends_with suffix name = (length suffix \<le> length name
     \<and> drop (length name - length suffix) name = suffix)"

definition count_pending_reports :: "reports_dir \<Rightarrow> nat" where
  "count_pending_reports d = length (filter (ends_with ''.pending'') (map fst (entries d)))"

definition busy_reason :: "nat \<Rightarrow> string" where
  "busy_reason current_pending =
     ''Ya hay '' @ str_nat current_pending @ '' reporte(s) gener''
       @ [CHR 0xC3, CHR 0x83, CHR 0xC2, CHR 0xA1]
       @ ''ndose. Por favor intente en unos minutos.''"

definition can_start_new_report :: "reports_dir \<Rightarrow> bool \<times> string option" where
  "can_start_new_report d =
     (let current_pending = count_pending_reports d
      in if current_pending \<ge> MAX_CONCURRENT_REPORTS
         then (False, Some (busy_reason current_pending))
         else (True, None))"

fun cleanup_loop :: "int \<Rightarrow> (string \<times> file_entry) list \<Rightarrow> reports_dir \<Rightarrow> nat \<Rightarrow> nat \<times> reports_dir" where
  "cleanup_loop expiration_time [] d deleted_count = (deleted_count, d)"
| "cleanup_loop expiration_time ((name, f) # rest) d deleted_count =
     (if mtime f < expiration_time
      then (case unlink d name of
              Some d' \<Rightarrow> cleanup_loop expiration_time rest d' (deleted_count + 1)
            | None \<Rightarrow> cleanup_loop expiration_time rest d deleted_count)
      else cleanup_loop expiration_time rest d deleted_count)"

definition cleanup_old_reports :: "reports_dir \<Rightarrow> int \<Rightarrow> nat \<times> reports_dir" where
  "cleanup_old_reports d now =
     (let expiration_time = now - REPORT_EXPIRATION_HOURS * 3600
      in cleanup_loop expiration_time (entries d) d 0)"

definition get_report_file_path :: "reports_dir \<Rightarrow> string \<Rightarrow> string option" where
  "get_report_file_path d task_id =
     (let completed_path = get_report_path task_id COMPLETED
      in if path_exists d completed_path then Some completed_path else None)"

subsection \<open>Observing the store\<close>

text \<open>
  The files a task id has, in the order pending, completed, failed; and the calls a
  client of the module can make in sequence, each with the clock of the call.
\<close>

definition markers_of :: "reports_dir \<Rightarrow> string \<Rightarrow> ReportStatus list" where
  "markers_of d t = filter (\<lambda>s. path_exists d (get_report_path t s)) [PENDING, COMPLETED, FAILED]"

definition at_most_one_marker :: "reports_dir \<Rightarrow> string \<Rightarrow> bool" where
  "at_most_one_marker d t = (length (markers_of d t) \<le> 1)"

datatype store_op =
    Submit string int
  | Complete string string int
  | Fail string string int
  | Sweep int

fun apply_op :: "reports_dir \<Rightarrow> store_op \<Rightarrow> reports_dir" where
  "apply_op d (Submit t now) = snd (create_pending_report d t now)"
| "apply_op d (Complete t c now) = snd (mark_report_completed d t c now)"
| "apply_op d (Fail t m now) = snd (mark_report_failed d t m now)"
| "apply_op d (Sweep now) = snd (cleanup_old_reports d now)"

fun creates :: "store_op \<Rightarrow> string option" where
  "creates (Submit t now) = Some (get_report_path t PENDING)"
| "creates (Complete t c now) = Some (get_report_path t COMPLETED)"
| "creates (Fail t m now) = Some (get_report_path t FAILED)"
| "creates (Sweep now) = None"

fun removes :: "store_op \<Rightarrow> string option" where
  "removes (Submit t now) = None"
| "removes (Complete t c now) = Some (get_report_path t PENDING)"
| "removes (Fail t m now) = Some (get_report_path t PENDING)"
| "removes (Sweep now) = None"

fun is_sweep :: "store_op \<Rightarrow> bool" where
  "is_sweep (Sweep now) = True"
| "is_sweep _ = False"

definition run :: "reports_dir \<Rightarrow> store_op list \<Rightarrow> reports_dir" where
  "run d ops = foldl apply_op d ops"

fun op_task :: "store_op \<Rightarrow> string option" where
  "op_task (Submit t now) = Some t"
| "op_task (Complete t c now) = Some t"
| "op_task (Fail t m now) = Some t"
| "op_task (Sweep now) = None"

fun is_fail :: "store_op \<Rightarrow> bool" where
  "is_fail (Fail t m now) = True"
| "is_fail _ = False"

section \<open>Lookups of the report code: app/crud\<close>

text \<open>
  The relational store as the report code uses it: each query either raises or returns
  its rows. Contract projects and element types are looked up by name and yield their
  id; the asset query takes the contract id, the two UTC bounds, the element type id
  and the asset status.
\<close>

record 'a report_db =
  select_contract_project :: "string \<Rightarrow> py_exception + nat option"
  select_element_type :: "string \<Rightarrow> py_exception + nat option"
  select_assets :: "nat \<Rightarrow> int \<Rightarrow> int \<Rightarrow> nat option \<Rightarrow> string option
                      \<Rightarrow> py_exception + 'a list"

definition get_contract_project_by_id_or_nombre ::
  "'a report_db \<Rightarrow> string \<Rightarrow> py_exception + nat option" where
  "get_contract_project_by_id_or_nombre db nombre =
     (if nombre = [] then Inl (HTTPException 400
        ''Either id or nombre must be provided to retrieve a contract_project'')
      else case select_contract_project db (strip nombre) of
             Inl e \<Rightarrow> Inl e
           | Inr None \<Rightarrow> Inl (HTTPException 404 ''Contract project not found'')
           | Inr (Some c) \<Rightarrow> Inr (Some c))"

definition get_element_type_by_id_or_nombre ::
  "'a report_db \<Rightarrow> string \<Rightarrow> py_exception + nat option" where
  "get_element_type_by_id_or_nombre db nombre =
     (if nombre = [] then Inl (HTTPException 400
        ''Either id or nombre must be provided to retrieve a element_type'')
      else case select_element_type db (strip nombre) of
             Inl e \<Rightarrow> Inl e
           | Inr None \<Rightarrow> Inl (HTTPException 404 ''Element type not found'')
           | Inr (Some c) \<Rightarrow> Inr (Some c))"

definition get_assets_by_datetime_range ::
  "'a report_db \<Rightarrow> nat \<Rightarrow> int \<Rightarrow> int \<Rightarrow> nat option \<Rightarrow> string option
     \<Rightarrow> py_exception + 'a list" where
  "get_assets_by_datetime_range db contract_project_id fecha_desde fecha_hasta
       element_type_id asset_status =
     select_assets db contract_project_id fecha_desde fecha_hasta element_type_id asset_status"

definition not_found_contract :: "string \<Rightarrow> string" where
  "not_found_contract nm = ''Proyecto de contrato '' @ [CHR 0x27] @ nm @ [CHR 0x27] @ '' no encontrado''"

definition not_found_element_type :: "string \<Rightarrow> string" where
  "not_found_element_type nm = ''Tipo de elemento '' @ [CHR 0x27] @ nm @ [CHR 0x27] @ '' no encontrado''"

section \<open>Background orchestrator: app/services/background\_reports.py\<close>

text \<open>
  The report generators of \<open>app/services/asset_report.py\<close> write a workbook into a
  \<open>BytesIO\<close>. The workbook writer is an argument (it raises or returns the bytes).
  \<open>generate_installers_excel_report\<close> returns \<open>None\<close> for an empty asset list before
  it creates the workbook; \<open>getvalue\<close> on \<open>None\<close> raises \<open>AttributeError\<close>.
\<close>

definition generate_installers_excel_report ::
  "('a list \<Rightarrow> py_exception + string) \<Rightarrow> 'a list \<Rightarrow> py_exception + string option" where
  "generate_installers_excel_report write_workbook assets =
     (if assets = [] then Inr None
      else case write_workbook assets of
             Inl e \<Rightarrow> Inl e
           | Inr output \<Rightarrow> Inr (Some output))"

definition none_getvalue_error :: py_exception where
  "none_getvalue_error = PyException ''AttributeError''
     ([CHR 0x27] @ ''NoneType'' @ [CHR 0x27] @ '' object has no attribute ''
        @ [CHR 0x27] @ ''getvalue'' @ [CHR 0x27])"

definition getvalue :: "string option \<Rightarrow> py_exception + string" where
  "getvalue excel_buffer =
     (case excel_buffer of None \<Rightarrow> Inl none_getvalue_error | Some b \<Rightarrow> Inr b)"

definition save_error_msg :: string where
  "save_error_msg = ''Error al guardar el archivo del reporte''"

definition internal_error_msg :: "py_exception \<Rightarrow> string" where
  "internal_error_msg e = ''Error interno al generar el reporte: '' @ str_exc e"

text \<open>
  The \<open>try\<close> block, which the two background functions share word for word apart from
  the generator they call (passed as \<open>generate\<close>) and their log messages. The result is
  the exception that leaves the block, if any, and the directory. \<open>fetch_and_save\<close> is
  the part of the block after the lookups. \<open>now\<close> is the clock when the marker files
  are written.
\<close>

definition fetch_and_save ::
  "'a report_db \<Rightarrow> ('a list \<Rightarrow> py_exception + string option) \<Rightarrow> reports_dir \<Rightarrow> string
     \<Rightarrow> nat \<Rightarrow> int \<Rightarrow> int \<Rightarrow> nat option \<Rightarrow> string option \<Rightarrow> int
     \<Rightarrow> (py_exception + unit) \<times> reports_dir" where
  "fetch_and_save db generate d task_id contract_project_id fecha_desde fecha_hasta
       element_type_id asset_status now =
     (case get_assets_by_datetime_range db contract_project_id fecha_desde fecha_hasta
             element_type_id asset_status of
        Inl e \<Rightarrow> (Inl e, d)
      | Inr assets \<Rightarrow>
          (case generate assets of
             Inl e \<Rightarrow> (Inl e, d)
           | Inr excel_buffer \<Rightarrow>
               (case getvalue excel_buffer of
                  Inl e \<Rightarrow> (Inl e, d)
                | Inr file_content \<Rightarrow>
                    (case mark_report_completed d task_id file_content now of
                       (True, d') \<Rightarrow> (Inr (), d')
                     | (False, d') \<Rightarrow>
                         (Inr (), snd (mark_report_failed d' task_id save_error_msg now))))))"

definition report_try_block ::
  "'a report_db \<Rightarrow> ('a list \<Rightarrow> py_exception + string option) \<Rightarrow> reports_dir \<Rightarrow> string
     \<Rightarrow> string \<Rightarrow> int \<Rightarrow> int \<Rightarrow> string option \<Rightarrow> string option \<Rightarrow> int
     \<Rightarrow> (py_exception + unit) \<times> reports_dir" where
  "report_try_block db generate d task_id contract_name fecha_desde fecha_hasta
       element_type asset_status now =
     (case get_contract_project_by_id_or_nombre db contract_name of
        Inl e \<Rightarrow> (Inl e, d)
      | Inr None \<Rightarrow>
          (Inr (), snd (mark_report_failed d task_id (not_found_contract contract_name) now))
      | Inr (Some contract_project) \<Rightarrow>
          (case element_type of
             None \<Rightarrow>
               fetch_and_save db generate d task_id contract_project fecha_desde fecha_hasta
                 None asset_status now
           | Some et \<Rightarrow>
               (case get_element_type_by_id_or_nombre db et of
                  Inl e \<Rightarrow> (Inl e, d)
                | Inr None \<Rightarrow>
                    (Inr (), snd (mark_report_failed d task_id (not_found_element_type et) now))
                | Inr (Some element_type_obj) \<Rightarrow>
                    fetch_and_save db generate d task_id contract_project fecha_desde
                      fecha_hasta (Some element_type_obj) asset_status now)))"

text \<open>
  The handler \<open>except Exception\<close> around the block, after the sweep that opens each
  function. \<open>started\<close> is the clock of the sweep.
\<close>

definition report_background ::
  "'a report_db \<Rightarrow> ('a list \<Rightarrow> py_exception + string option) \<Rightarrow> reports_dir \<Rightarrow> string
     \<Rightarrow> string \<Rightarrow> int \<Rightarrow> int \<Rightarrow> string option \<Rightarrow> string option \<Rightarrow> int \<Rightarrow> int
     \<Rightarrow> (py_exception + unit) \<times> reports_dir" where
  "report_background db generate d task_id contract_name fecha_desde fecha_hasta
       element_type asset_status started now =
     (let swept = snd (cleanup_old_reports d started)
      in case report_try_block db generate swept task_id contract_name fecha_desde fecha_hasta
                element_type asset_status now of
           (Inl e, d') \<Rightarrow> (Inr (), snd (mark_report_failed d' task_id (internal_error_msg e) now))
         | (Inr u, d') \<Rightarrow> (Inr (), d'))"

definition excel_buffer_of ::
  "('a list \<Rightarrow> bool \<Rightarrow> py_exception + string) \<Rightarrow> bool \<Rightarrow> 'a list
     \<Rightarrow> py_exception + string option" where
  "excel_buffer_of generate_excel_report include_photos assets =
     (case generate_excel_report assets include_photos of
        Inl e \<Rightarrow> Inl e
      | Inr output \<Rightarrow> Inr (Some output))"

definition generate_excel_report_background ::
  "'a report_db \<Rightarrow> ('a list \<Rightarrow> bool \<Rightarrow> py_exception + string) \<Rightarrow> reports_dir \<Rightarrow> string
     \<Rightarrow> string \<Rightarrow> int \<Rightarrow> int \<Rightarrow> bool \<Rightarrow> string option \<Rightarrow> string option \<Rightarrow> int \<Rightarrow> int
     \<Rightarrow> (py_exception + unit) \<times> reports_dir" where
  "generate_excel_report_background db generate_excel_report d task_id contract_name
       fecha_desde fecha_hasta include_photos element_type asset_status started now =
     report_background db (excel_buffer_of generate_excel_report include_photos)
       d task_id contract_name fecha_desde fecha_hasta element_type asset_status started now"

definition generate_installers_excel_report_background ::
  "'a report_db \<Rightarrow> ('a list \<Rightarrow> py_exception + string) \<Rightarrow> reports_dir \<Rightarrow> string
     \<Rightarrow> string \<Rightarrow> int \<Rightarrow> int \<Rightarrow> string option \<Rightarrow> string option \<Rightarrow> int \<Rightarrow> int
     \<Rightarrow> (py_exception + unit) \<times> reports_dir" where
  "generate_installers_excel_report_background db write_workbook d task_id contract_name
       fecha_desde fecha_hasta element_type asset_status started now =
     report_background db (generate_installers_excel_report write_workbook)
       d task_id contract_name fecha_desde fecha_hasta element_type asset_status started now"

text \<open>
  The exception that reaches the handler, as the collaborators decide it: the first of
  the contract lookup, the element type lookup, the row fetch, the generator and
  \<open>getvalue\<close> to raise.
\<close>

definition raised_in_block ::
  "'a report_db \<Rightarrow> ('a list \<Rightarrow> py_exception + string option) \<Rightarrow> string
     \<Rightarrow> int \<Rightarrow> int \<Rightarrow> string option \<Rightarrow> string option \<Rightarrow> py_exception option" where
  "raised_in_block db generate contract_name fecha_desde fecha_hasta element_type asset_status =
     (case get_contract_project_by_id_or_nombre db contract_name of
        Inl e \<Rightarrow> Some e
      | Inr None \<Rightarrow> None
      | Inr (Some contract_project) \<Rightarrow>
          (case (case element_type of
                   None \<Rightarrow> Inr (Some None)
                 | Some et \<Rightarrow>
                     (case get_element_type_by_id_or_nombre db et of
                        Inl e \<Rightarrow> Inl e
                      | Inr None \<Rightarrow> Inr None
                      | Inr (Some x) \<Rightarrow> Inr (Some (Some x)))) of
             Inl e \<Rightarrow> Some e
           | Inr None \<Rightarrow> None
           | Inr (Some element_type_id) \<Rightarrow>
               (case get_assets_by_datetime_range db contract_project fecha_desde fecha_hasta
                       element_type_id asset_status of
                  Inl e \<Rightarrow> Some e
                | Inr assets \<Rightarrow>
                    (case generate assets of
                       Inl e \<Rightarrow> Some e
                     | Inr excel_buffer \<Rightarrow>
                         (case getvalue excel_buffer of
                            Inl e \<Rightarrow> Some e
                          | Inr file_content \<Rightarrow> None)))))"

section \<open>Report submission route: app/api/v1/endpoints/asset.py\<close>

record py_datetime =
  has_tzinfo :: bool
  utc_seconds :: int

record AssetsReportRequest =
  contract_name :: string
  fecha_desde :: py_datetime
  fecha_hasta :: py_datetime
  include_photos :: "bool option"
  element_type :: "string option"
  asset_status :: "string option"

record ReportTaskResponse =
  task_id :: string
  status :: ReportStatus
  message :: string

datatype BackgroundTask =
  ExcelReportTask string string int int bool "string option" "string option"

definition start_error_detail :: string where
  "start_error_detail = ''Error al iniciar la generaci'' @ [CHR 0xC3, CHR 0xB3] @ ''n del reporte''"

text \<open>
  The body of the \<open>try\<close> block of \<open>initiate_assets_excel_report\<close>. The fresh UUID and
  the clock are arguments. The result is the raised exception or the response, together
  with the directory and the background tasks scheduled.
\<close>

definition initiate_assets_excel_report_body ::
  "'a report_db \<Rightarrow> reports_dir \<Rightarrow> AssetsReportRequest \<Rightarrow> string \<Rightarrow> int
     \<Rightarrow> (py_exception + ReportTaskResponse) \<times> reports_dir \<times> BackgroundTask list" where
  "initiate_assets_excel_report_body db d report_request new_task_id now =
     (if \<not> has_tzinfo (fecha_desde report_request) \<or> \<not> has_tzinfo (fecha_hasta report_request)
      then (Inl (HTTPException 422
              (''Las fechas deben incluir informaci'' @ [CHR 0xC3, CHR 0xB3] @ ''n de timezone'')), d, [])
      else
        let fecha_desde_utc = utc_seconds (fecha_desde report_request);
            fecha_hasta_utc = utc_seconds (fecha_hasta report_request);
            time_difference = fecha_hasta_utc - fecha_desde_utc;
            max_days = 90
        in if time_difference div 86400 > max_days
           then (Inl (HTTPException 422
                   (''El rango de fechas no puede exceder '' @ str_int max_days
                      @ '' d'' @ [CHR 0xC3, CHR 0xAD] @ ''as'')), d, [])
           else if time_difference < 0
           then (Inl (HTTPException 422
                   ''La fecha de inicio debe ser anterior a la fecha de fin''), d, [])
           else case can_start_new_report d of
             (False, reason) \<Rightarrow>
               (Inl (HTTPException 429
                  (case reason of Some r \<Rightarrow> r | None \<Rightarrow> ''Too Many Requests'')), d, [])
           | (True, reason) \<Rightarrow>
               (case get_contract_project_by_id_or_nombre db (contract_name report_request) of
                  Inl e \<Rightarrow> (Inl e, d, [])
                | Inr None \<Rightarrow>
                    (Inl (HTTPException 404
                       (not_found_contract (contract_name report_request))), d, [])
                | Inr (Some contract_project) \<Rightarrow>
                    (case (case element_type report_request of
                             None \<Rightarrow> Inr ()
                           | Some et \<Rightarrow>
                               (case get_element_type_by_id_or_nombre db et of
                                  Inl e \<Rightarrow> Inl e
                                | Inr None \<Rightarrow>
                                    Inl (HTTPException 404 (not_found_element_type et))
                                | Inr (Some x) \<Rightarrow> Inr ())) of
                       Inl e \<Rightarrow> (Inl e, d, [])
                     | Inr u \<Rightarrow>
                         (case create_pending_report d new_task_id now of
                            (False, d') \<Rightarrow> (Inl (HTTPException 500 start_error_detail), d', [])
                          | (True, d') \<Rightarrow>
                              (Inr \<lparr>task_id = new_task_id, status = PENDING,
                                     message = ''Generando reporte, por favor espere. Use el task_id para verificar el estado.''\<rparr>,
                               d',
                               [ExcelReportTask new_task_id (contract_name report_request)
                                  fecha_desde_utc fecha_hasta_utc
                                  (case include_photos report_request of
                                     Some b \<Rightarrow> b | None \<Rightarrow> False)
                                  (element_type report_request)
                                  (asset_status report_request)])))))"

text \<open>
  The handlers of the route: an \<open>HTTPException\<close> is re-raised, any other exception
  becomes a 500.
\<close>

definition initiate_assets_excel_report ::
  "'a report_db \<Rightarrow> reports_dir \<Rightarrow> AssetsReportRequest \<Rightarrow> string \<Rightarrow> int
     \<Rightarrow> (py_exception + ReportTaskResponse) \<times> reports_dir \<times> BackgroundTask list" where
  "initiate_assets_excel_report db d report_request new_task_id now =
     (case initiate_assets_excel_report_body db d report_request new_task_id now of
        (Inl (HTTPException code det), d', bg) \<Rightarrow> (Inl (HTTPException code det), d', bg)
      | (Inl (PyException ty msg), d', bg) \<Rightarrow> (Inl (HTTPException 500 start_error_detail), d', bg)
      | (Inr r, d', bg) \<Rightarrow> (Inr r, d', bg))"

text \<open>
  A request passes the date checks that precede the admission gate; the lookups that
  follow the gate find their rows.
\<close>

definition dates_valid :: "AssetsReportRequest \<Rightarrow> bool" where
  "dates_valid rq =
     (has_tzinfo (fecha_desde rq) \<and> has_tzinfo (fecha_hasta rq)
      \<and> 0 \<le> utc_seconds (fecha_hasta rq) - utc_seconds (fecha_desde rq)
      \<and> (utc_seconds (fecha_hasta rq) - utc_seconds (fecha_desde rq)) div 86400 \<le> 90)"

definition lookups_resolve :: "'a report_db \<Rightarrow> AssetsReportRequest \<Rightarrow> bool" where
  "lookups_resolve db rq =
     ((\<exists>c. get_contract_project_by_id_or_nombre db (contract_name rq) = Inr (Some c))
      \<and> (case element_type rq of None \<Rightarrow> True
          | Some et \<Rightarrow> (\<exists>x. get_element_type_by_id_or_nombre db et = Inr (Some x))))"

definition pending_response :: "string \<Rightarrow> ReportTaskResponse" where
  "pending_response tid = \<lparr>task_id = tid, status = PENDING,
     message = ''Generando reporte, por favor espere. Use el task_id para verificar el estado.''\<rparr>"

subsection \<open>Sample data\<close>

definition empty_dir :: reports_dir where
  "empty_dir = \<lparr>entries = [], faulty = []\<rparr>"

definition busy_dir :: reports_dir where
  "busy_dir = \<lparr>entries = [(''t0.pending'', \<lparr>content = [], mtime = 10\<rparr>)], faulty = []\<rparr>"

definition demo_db :: "nat report_db" where
  "demo_db = \<lparr>select_contract_project = (\<lambda>n. if n = ''Ruta 5'' then Inr (Some 7) else Inr None),
              select_element_type = (\<lambda>n. if n = ''Barrera'' then Inr (Some 4) else Inr None),
              select_assets = (\<lambda>c a b e s. Inr [])\<rparr>"

definition demo_request :: AssetsReportRequest where
  "demo_request = \<lparr>contract_name = ''Ruta 5'',
     fecha_desde = \<lparr>has_tzinfo = True, utc_seconds = 0\<rparr>,
     fecha_hasta = \<lparr>has_tzinfo = True, utc_seconds = 86400\<rparr>,
     include_photos = None, element_type = None, asset_status = None\<rparr>"

definition pending_t1_dir :: reports_dir where
  "pending_t1_dir = \<lparr>entries = [(''t1.pending'', \<lparr>content = [], mtime = 10\<rparr>)], faulty = []\<rparr>"

definition completed_t1_dir :: reports_dir where
  "completed_t1_dir = \<lparr>entries = [(''t1.xlsx'', \<lparr>content = ''PK'', mtime = 20\<rparr>)], faulty = []\<rparr>"

definition failed_t1_dir :: reports_dir where
  "failed_t1_dir = \<lparr>entries = [(''t1.failed'', \<lparr>content = ''boom'', mtime = 20\<rparr>)], faulty = []\<rparr>"

definition failing_db :: "nat report_db" where
  "failing_db = \<lparr>select_contract_project = (\<lambda>n. if n = ''Ruta 5'' then Inr (Some 7) else Inr None),
              select_element_type = (\<lambda>n. Inr None),
              select_assets = (\<lambda>c a b e s. Inl (PyException ''OperationalError'' ''connection lost''))\<rparr>"

definition demo_workbook :: "nat list \<Rightarrow> bool \<Rightarrow> py_exception + string" where
  "demo_workbook assets with_photos = Inr ''PK''"

definition demo_installers_workbook :: "nat list \<Rightarrow> py_exception + string" where
  "demo_installers_workbook assets = Inr ''PK''"

section \<open>Bulk ingestion: app/crud/asset.py\<close>

text \<open>
  The columns of an asset row that the modelled code reads. The dates are calendar
  dates; the last two columns are optional text.
\<close>

record py_date =
  year :: nat
  month :: nat
  day :: nat

record Asset =
  id_interno :: int
  contract_project_id :: int
  element_type_id :: int
  installer_id :: int
  fecha_instalacion :: py_date
  georeferenciacion :: "string option"
  nombre_foto_codigo_barra :: "string option"

text \<open>
  The exceptions of a statement: SQLAlchemy's \<open>IntegrityError\<close> and \<open>DataError\<close> with
  the SQLSTATE of the driver error, any other \<open>DBAPIError\<close>, and any other exception
  with its message.
\<close>

datatype sql_error =
    IntegrityError string
  | DataError string
  | DBAPIError string
  | OtherException string

text \<open>
  The session as the bulk code uses it: the conditional insert into the primary table
  with \<open>ON CONFLICT DO NOTHING ... RETURNING id_interno\<close>, and the upsert into the
  conflictive table with \<open>ON CONFLICT DO UPDATE\<close>. Each takes the state of the
  database and the rows of the statement.
\<close>

record 'db asset_store =
  insert_on_conflict_do_nothing :: "'db \<Rightarrow> Asset list \<Rightarrow> (sql_error + int list) \<times> 'db"
  insert_on_conflict_do_update :: "'db \<Rightarrow> Asset list \<Rightarrow> (sql_error + unit) \<times> 'db"

text \<open>
  A Python set of integers is a list without repetitions. The order in which a set is
  iterated is not observable in the result of \<open>create_assets_bulk\<close>: the lists it
  extends are only counted, searched and sorted.
\<close>

definition py_set :: "int list \<Rightarrow> int list" where
  "py_set xs = remdups xs"

definition set_minus :: "int list \<Rightarrow> int list \<Rightarrow> int list" where
  "set_minus a b = filter (\<lambda>x. x \<notin> set b) a"

definition set_update :: "int list \<Rightarrow> int list \<Rightarrow> int list" where
  "set_update a b = a @ filter (\<lambda>x. x \<notin> set a) (remdups b)"

record bulk_state =
  all_conflictive_id_internos :: "int list"
  all_inserted_id_internos :: "int list"
  all_failed_id_internos :: "int list"

function split_batches :: "nat \<Rightarrow> 'a list \<Rightarrow> 'a list list" where
  "split_batches n xs = (if n = 0 \<or> xs = [] then [] else take n xs # split_batches n (drop n xs))"
  by pat_completeness auto
termination
  by (relation "measure (\<lambda>(n, xs). length xs)") auto

declare split_batches.simps [simp del]

text \<open>
  The loop over the batches. \<open>IntegrityError\<close> and \<open>DataError\<close> mark the batch as
  failed and the loop goes on; any other exception leaves the loop.
\<close>

fun process_batches ::
  "'db asset_store \<Rightarrow> Asset list list \<Rightarrow> 'db \<Rightarrow> bulk_state \<Rightarrow> (sql_error + bulk_state) \<times> 'db" where
  "process_batches store [] db st = (Inr st, db)"
| "process_batches store (batch # rest) db st =
     (case insert_on_conflict_do_nothing store db batch of
        (Inr returned, db') \<Rightarrow>
          (let inserted_id_internos = py_set returned;
               st1 = st\<lparr>all_inserted_id_internos :=
                         set_update (all_inserted_id_internos st) inserted_id_internos\<rparr>;
               batch_id_internos = py_set (map id_interno batch);
               conflictive_in_batch = set_minus batch_id_internos inserted_id_internos
           in process_batches store rest db'
                (if conflictive_in_batch \<noteq> []
                 then st1\<lparr>all_conflictive_id_internos :=
                            all_conflictive_id_internos st1 @ conflictive_in_batch\<rparr>
                 else st1))
      | (Inl (IntegrityError code), db') \<Rightarrow>
          process_batches store rest db'
            (st\<lparr>all_failed_id_internos :=
                   all_failed_id_internos st @ py_set (map id_interno batch)\<rparr>)
      | (Inl (DataError code), db') \<Rightarrow>
          process_batches store rest db'
            (st\<lparr>all_failed_id_internos :=
                   all_failed_id_internos st @ py_set (map id_interno batch)\<rparr>)
      | (Inl e, db') \<Rightarrow> (Inl e, db'))"

datatype summary_value = Count nat | Ids "int list"

type_synonym summary = "(string \<times> summary_value) list"

text \<open>
  The upsert of the conflictive rows after the loop. The result is the exception that
  leaves the step, or the count of conflictive rows with the list of failed ids.
\<close>

definition upsert_conflictive ::
  "'db asset_store \<Rightarrow> 'db \<Rightarrow> Asset list \<Rightarrow> bulk_state \<Rightarrow> (sql_error + nat \<times> int list) \<times> 'db" where
  "upsert_conflictive store db assets st =
     (if all_conflictive_id_internos st \<noteq> []
      then
        (let conflictive_assets =
               filter (\<lambda>asset. id_interno asset \<in> set (all_conflictive_id_internos st)) assets;
             cleaned_conflictive_data = conflictive_assets
         in case insert_on_conflict_do_update store db cleaned_conflictive_data of
              (Inr u, db') \<Rightarrow>
                (Inr (length cleaned_conflictive_data, all_failed_id_internos st), db')
            | (Inl (IntegrityError code), db') \<Rightarrow>
                (Inr (0, all_failed_id_internos st @ all_conflictive_id_internos st), db')
            | (Inl (DataError code), db') \<Rightarrow>
                (Inr (0, all_failed_id_internos st @ all_conflictive_id_internos st), db')
            | (Inl e, db') \<Rightarrow> (Inl e, db'))
      else (Inr (0, all_failed_id_internos st), db))"

fun bulk_error :: "sql_error \<Rightarrow> py_exception" where
  "bulk_error (OtherException msg) =
     HTTPException 500 (''Unexpected error during asset creation: '' @ msg)"
| "bulk_error (IntegrityError code) =
     HTTPException 500 (''Database integrity error during asset creation (code: '' @ code @ '')'')"
| "bulk_error (DataError code) =
     HTTPException 500 (''Database integrity error during asset creation (code: '' @ code @ '')'')"
| "bulk_error (DBAPIError code) =
     HTTPException 500 (''Database integrity error during asset creation (code: '' @ code @ '')'')"

text \<open>
  \<open>create_assets_bulk\<close>. The log call before the \<open>try\<close> divides by \<open>batch_size\<close>; a
  negative step makes the \<open>range\<close> of the loop empty.
\<close>

definition create_assets_bulk ::
  "'db asset_store \<Rightarrow> 'db \<Rightarrow> Asset list \<Rightarrow> int \<Rightarrow> (py_exception + summary) \<times> 'db" where
  "create_assets_bulk store db assets batch_size =
     (let total_assets = length assets
      in if total_assets = 0
         then (Inr [(''created'', Count 0), (''conflictive'', Count 0), (''total'', Count 0)], db)
         else if batch_size = 0
         then (Inl (PyException ''ZeroDivisionError'' ''integer division or modulo by zero''), db)
         else
           (case process_batches store
                   (if batch_size < 0 then [] else split_batches (nat batch_size) assets) db
                   \<lparr>all_conflictive_id_internos = [], all_inserted_id_internos = [],
                    all_failed_id_internos = []\<rparr> of
              (Inl e, db1) \<Rightarrow> (Inl (bulk_error e), db1)
            | (Inr st, db1) \<Rightarrow>
                (case upsert_conflictive store db1 assets st of
                   (Inl e, db2) \<Rightarrow> (Inl (bulk_error e), db2)
                 | (Inr (conflictive_count, failed), db2) \<Rightarrow>
                     (Inr [(''created'', Count (length (all_inserted_id_internos st))),
                           (''conflictive'', Count conflictive_count),
                           (''total'', Count total_assets),
                           (''failed'', Count (length failed)),
                           (''failed_id_internos'', Ids (sort failed))], db2))))"

text \<open>
  The route \<open>create_assets_bulk_route\<close> of \<open>app/api/v1/endpoints/asset.py\<close>: it reads
  the four counts of the summary for its log line before it answers; a missing key
  raises \<open>KeyError\<close>, which the route turns into a 500, as it does with any exception
  that is not an \<open>HTTPException\<close>.
\<close>

definition create_assets_bulk_route ::
  "'db asset_store \<Rightarrow> 'db \<Rightarrow> Asset list \<Rightarrow> int \<Rightarrow> (py_exception + summary) \<times> 'db" where
  "create_assets_bulk_route store db assets batch_size =
     (case create_assets_bulk store db assets batch_size of
        (Inl (HTTPException code det), db') \<Rightarrow> (Inl (HTTPException code det), db')
      | (Inl (PyException ty msg), db') \<Rightarrow>
          (Inl (HTTPException 500 ''Error creating assets in bulk''), db')
      | (Inr result, db') \<Rightarrow>
          (if map_of result ''created'' \<noteq> None \<and> map_of result ''conflictive'' \<noteq> None
                \<and> map_of result ''failed'' \<noteq> None \<and> map_of result ''total'' \<noteq> None
           then (Inr result, db')
           else (Inl (HTTPException 500 ''Error creating assets in bulk''), db')))"

definition count_of :: "summary \<Rightarrow> string \<Rightarrow> nat" where
  "count_of s k = (case map_of s k of Some (Count n) \<Rightarrow> n | _ \<Rightarrow> 0)"

text \<open>
  What the bulk code relies on from the store: the conditional insert returns keys of
  the rows it was given, and an upsert statement succeeds only when no two of its rows
  have the same key (PostgreSQL refuses an \<open>ON CONFLICT DO UPDATE\<close> that would affect a
  row twice).
\<close>

definition returns_batch_keys :: "'db asset_store \<Rightarrow> bool" where
  "returns_batch_keys store =
     (\<forall>db batch returned db'.
        insert_on_conflict_do_nothing store db batch = (Inr returned, db')
          \<longrightarrow> set returned \<subseteq> set (map id_interno batch))"

definition upsert_needs_distinct_keys :: "'db asset_store \<Rightarrow> bool" where
  "upsert_needs_distinct_keys store =
     (\<forall>db rows db'.
        insert_on_conflict_do_update store db rows = (Inr (), db')
          \<longrightarrow> distinct (map id_interno rows))"

subsection \<open>A store with PostgreSQL's conflict handling\<close>

text \<open>
  The state is the keys of the two tables. A row whose contract project id is 0
  violates the foreign key. The conditional insert skips the rows whose key is already
  present or occurs earlier in the statement; the upsert refuses repeated keys with a
  cardinality violation (SQLSTATE 21000). \<open>lenient_store\<close> differs in accepting
  repeated keys in the upsert.
\<close>

record tables =
  asset_keys :: "int list"
  conflictive_keys :: "int list"

definition pg_insert :: "tables \<Rightarrow> Asset list \<Rightarrow> (sql_error + int list) \<times> tables" where
  "pg_insert db batch =
     (let new_keys = filter (\<lambda>k. k \<notin> set (asset_keys db)) (remdups (map id_interno batch))
      in if \<exists>row \<in> set batch. contract_project_id row = 0
         then (Inl (IntegrityError ''23503''), db)
         else (Inr new_keys, db\<lparr>asset_keys := asset_keys db @ new_keys\<rparr>))"

definition pg_upsert :: "tables \<Rightarrow> Asset list \<Rightarrow> (sql_error + unit) \<times> tables" where
  "pg_upsert db rows =
     (if \<exists>row \<in> set rows. contract_project_id row = 0
      then (Inl (IntegrityError ''23503''), db)
      else if \<not> distinct (map id_interno rows)
      then (Inl (DBAPIError ''21000''), db)
      else (Inr (), db\<lparr>conflictive_keys :=
                          set_update (conflictive_keys db) (map id_interno rows)\<rparr>))"

definition lenient_upsert :: "tables \<Rightarrow> Asset list \<Rightarrow> (sql_error + unit) \<times> tables" where
  "lenient_upsert db rows =
     (Inr (), db\<lparr>conflictive_keys := set_update (conflictive_keys db) (map id_interno rows)\<rparr>)"

definition pg_store :: "tables asset_store" where
  "pg_store = \<lparr>insert_on_conflict_do_nothing = pg_insert,
               insert_on_conflict_do_update = pg_upsert\<rparr>"

definition lenient_store :: "tables asset_store" where
  "lenient_store = \<lparr>insert_on_conflict_do_nothing = pg_insert,
                    insert_on_conflict_do_update = lenient_upsert\<rparr>"

definition row :: "int \<Rightarrow> int \<Rightarrow> Asset" where
  "row k contract =
     \<lparr>id_interno = k, contract_project_id = contract, element_type_id = 4, installer_id = 2,
      fecha_instalacion = \<lparr>year = 2024, month = 3, day = 9\<rparr>,
      georeferenciacion = None, nombre_foto_codigo_barra = None\<rparr>"

definition no_rows :: tables where
  "no_rows = \<lparr>asset_keys = [], conflictive_keys = []\<rparr>"

text \<open>The number of ids the three trackers hold.\<close>

definition tally :: "bulk_state \<Rightarrow> nat" where
  "tally st = length (all_inserted_id_internos st) + length (all_conflictive_id_internos st)
              + length (all_failed_id_internos st)"

definition mixed_rows :: "Asset list" where
  "mixed_rows = [row 1 1, row 2 1, row 3 0, row 4 1]"

definition mixed_summary :: summary where
  "mixed_summary = [(''created'', Count 1), (''conflictive'', Count 1), (''total'', Count 4),
                    (''failed'', Count 2), (''failed_id_internos'', Ids [3, 4])]"


definition tracked_ids :: "bulk_state \<Rightarrow> int list" where
  "tracked_ids st = all_inserted_id_internos st @ all_conflictive_id_internos st
                      @ all_failed_id_internos st"

section \<open>Photo reconciliation: app/services/photo\_upload.py, app/utils/photo\_validation.py\<close>

record UploadFile =
  filename :: string
  data :: string

text \<open>
  The settings read from the environment in \<open>app/core/config.py\<close>;
  \<open>max_size_mb_text\<close> is the text of \<open>MAX_PHOTO_FILE_SIZE / (1024 * 1024)\<close>.
\<close>

record photo_config =
  MAX_PHOTOS_PER_REQUEST :: nat
  ALLOWED_EXTENSIONS_LIST :: "string list"
  MAX_PHOTO_FILE_SIZE :: nat
  max_size_mb_text :: string

definition lower :: "string \<Rightarrow> string" where
  "lower s = map (\<lambda>c. case map_of (zip ''ABCDEFGHIJKLMNOPQRSTUVWXYZ''
                                       ''abcdefghijklmnopqrstuvwxyz'') c of
                         Some l \<Rightarrow> l | None \<Rightarrow> c) s"

definition last_segment :: "string \<Rightarrow> string" where
  "last_segment s = rev (takeWhile (\<lambda>c. c \<noteq> CHR ''.'') (rev s))"

definition extension_of :: "UploadFile \<Rightarrow> string" where
  "extension_of photo = lower (last_segment (filename photo))"

fun join_comma :: "string list \<Rightarrow> string" where
  "join_comma [] = []"
| "join_comma [x] = x"
| "join_comma (x # y # ys) = x @ '', '' @ join_comma (y # ys)"

definition validate_request_limits :: "photo_config \<Rightarrow> UploadFile list \<Rightarrow> py_exception option" where
  "validate_request_limits cfg photos =
     (if length photos > MAX_PHOTOS_PER_REQUEST cfg
      then Some (HTTPException 400
             (''Maximum '' @ str_nat (MAX_PHOTOS_PER_REQUEST cfg) @ '' photos allowed per request''))
      else None)"

definition validate_photo_and_asset_length :: "int list \<Rightarrow> UploadFile list \<Rightarrow> py_exception option" where
  "validate_photo_and_asset_length ids_internos photos =
     (if length ids_internos \<noteq> length photos
      then Some (HTTPException 400 ''The number of ids_internos must match the number of photos'')
      else None)"

definition validate_photo_extension :: "photo_config \<Rightarrow> UploadFile \<Rightarrow> py_exception option" where
  "validate_photo_extension cfg photo =
     (if filename photo = [] then Some (HTTPException 400 ''Photo filename is required'')
      else if extension_of photo \<notin> set (ALLOWED_EXTENSIONS_LIST cfg)
      then Some (HTTPException 400
             (''Invalid file extension. Allowed: '' @ join_comma (ALLOWED_EXTENSIONS_LIST cfg)))
      else None)"

fun validate_photo_extensions :: "photo_config \<Rightarrow> UploadFile list \<Rightarrow> py_exception option" where
  "validate_photo_extensions cfg [] = None"
| "validate_photo_extensions cfg (photo # rest) =
     (case validate_photo_extension cfg photo of
        Some e \<Rightarrow> Some e
      | None \<Rightarrow> validate_photo_extensions cfg rest)"

definition validate_photo_size :: "photo_config \<Rightarrow> UploadFile \<Rightarrow> py_exception option" where
  "validate_photo_size cfg photo =
     (if length (data photo) > MAX_PHOTO_FILE_SIZE cfg
      then Some (HTTPException 400 (''Photo size exceeds '' @ max_size_mb_text cfg @ ''MB limit''))
      else None)"

fun validate_photo_sizes :: "photo_config \<Rightarrow> UploadFile list \<Rightarrow> py_exception option" where
  "validate_photo_sizes cfg [] = None"
| "validate_photo_sizes cfg (photo # rest) =
     (case validate_photo_size cfg photo of
        Some e \<Rightarrow> Some e
      | None \<Rightarrow> validate_photo_sizes cfg rest)"

definition zero_pad :: "nat \<Rightarrow> nat \<Rightarrow> string" where
  "zero_pad width n = replicate (width - length (str_nat n)) CHR ''0'' @ str_nat n"

definition generate_photo_name :: "py_date \<Rightarrow> int \<Rightarrow> string \<Rightarrow> string" where
  "generate_photo_name fecha key extension =
     zero_pad 4 (year fecha) @ zero_pad 2 (month fecha) @ zero_pad 2 (day fecha)
       @ ''_'' @ str_int key @ ''_codigo_barra.'' @ extension"

record PhotoUploadResponse =
  success :: bool
  response_id :: int
  photo_name :: "string option"
  error_message :: "string option"

record BulkPhotoUploadResponse =
  total_processed :: nat
  total_successful :: nat
  total_failed :: nat
  results :: "PhotoUploadResponse list"

record plan_item =
  plan_asset :: Asset
  plan_photo :: UploadFile
  plan_photo_name :: string
  is_conflictive :: bool
  plan_id :: int

text \<open>
  The session and the filesystem as the service uses them, over a state \<open>'w\<close> of both:
  the two queries by a list of keys, the write of one photo into the directory of the
  regular or of the conflictive assets (it answers \<open>str(e)\<close> of the exception when it
  fails), one \<open>UPDATE ... RETURNING id_interno\<close> statement on one of the two tables,
  commit and rollback.
\<close>

record 'w photo_world =
  query_assets :: "'w \<Rightarrow> int list \<Rightarrow> Asset list"
  query_conflictive_assets :: "'w \<Rightarrow> int list \<Rightarrow> Asset list"
  write_photo :: "'w \<Rightarrow> bool \<Rightarrow> string \<Rightarrow> string \<Rightarrow> string option \<times> 'w"
  execute_update :: "'w \<Rightarrow> bool \<Rightarrow> int \<Rightarrow> string \<Rightarrow> (sql_error + int option) \<times> 'w"
  commit :: "'w \<Rightarrow> sql_error option \<times> 'w"
  rollback :: "'w \<Rightarrow> 'w"

text \<open>
  The calls made on the filesystem and on the session, in order. A save carries the
  key of the plan item whose photo is written.
\<close>

datatype photo_event =
    SavePhoto int string bool
  | UpdatePhoto bool int string
  | Commit
  | Rollback

fun event_key :: "photo_event \<Rightarrow> int option" where
  "event_key (SavePhoto k name c) = Some k"
| "event_key (UpdatePhoto c k name) = Some k"
| "event_key Commit = None"
| "event_key Rollback = None"

definition dict_by_id_interno :: "Asset list \<Rightarrow> int \<Rightarrow> Asset option" where
  "dict_by_id_interno assets = map_of (rev (map (\<lambda>asset. (id_interno asset, asset)) assets))"

definition not_found_response :: "int \<Rightarrow> PhotoUploadResponse" where
  "not_found_response k =
     \<lparr>success = False, response_id = k, photo_name = None,
      error_message = Some ''Asset not found in regular or conflictive tables''\<rparr>"

definition inconsistent_response :: "int \<Rightarrow> PhotoUploadResponse" where
  "inconsistent_response k =
     \<lparr>success = False, response_id = k, photo_name = None,
      error_message = Some ''Photo saved to filesystem but database update failed''\<rparr>"

definition make_plan_item :: "Asset \<Rightarrow> UploadFile \<Rightarrow> bool \<Rightarrow> int \<Rightarrow> plan_item" where
  "make_plan_item asset photo conflictive k =
     \<lparr>plan_asset = asset, plan_photo = photo,
      plan_photo_name = generate_photo_name (fecha_instalacion asset) (id_interno asset)
                          (extension_of photo),
      is_conflictive = conflictive, plan_id = k\<rparr>"

text \<open>Phase 1: the upload plan and the results of the keys found in neither table.\<close>

fun build_upload_plan ::
  "(int \<Rightarrow> Asset option) \<Rightarrow> (int \<Rightarrow> Asset option) \<Rightarrow> (int \<times> UploadFile) list
     \<Rightarrow> plan_item list \<times> PhotoUploadResponse list" where
  "build_upload_plan assets_dict conflictive_assets_dict [] = ([], [])"
| "build_upload_plan assets_dict conflictive_assets_dict ((k, photo) # rest) =
     (case build_upload_plan assets_dict conflictive_assets_dict rest of
        (upload_plan, found_none) \<Rightarrow>
          (case assets_dict k of
             Some asset \<Rightarrow> (make_plan_item asset photo False k # upload_plan, found_none)
           | None \<Rightarrow>
               (case conflictive_assets_dict k of
                  Some asset \<Rightarrow> (make_plan_item asset photo True k # upload_plan, found_none)
                | None \<Rightarrow> (upload_plan, not_found_response k # found_none))))"

text \<open>Phase 2: one write per plan item; a failure is recorded and the loop goes on.\<close>

fun save_photos ::
  "'w photo_world \<Rightarrow> 'w \<Rightarrow> plan_item list
     \<Rightarrow> (plan_item list \<times> PhotoUploadResponse list) \<times> 'w \<times> photo_event list" where
  "save_photos world w [] = (([], []), w, [])"
| "save_photos world w (item # rest) =
     (case write_photo world w (is_conflictive item) (plan_photo_name item)
             (data (plan_photo item)) of
        (err, w1) \<Rightarrow>
          (case save_photos world w1 rest of
             ((successful_uploads, failures), w2, evs) \<Rightarrow>
               (case err of
                  None \<Rightarrow>
                    ((item # successful_uploads, failures), w2,
                     SavePhoto (plan_id item) (plan_photo_name item) (is_conflictive item) # evs)
                | Some msg \<Rightarrow>
                    ((successful_uploads,
                      \<lparr>success = False, response_id = plan_id item, photo_name = None,
                       error_message = Some (''Error saving photo: '' @ msg)\<rparr> # failures), w2,
                     SavePhoto (plan_id item) (plan_photo_name item) (is_conflictive item) # evs))))"

text \<open>
  \<open>_bulk_update_asset_photos\<close>: one statement per item; a returned key that is falsy
  (no row, or the key 0) is not recorded; an exception ends the loop and is re-raised.
\<close>

fun bulk_update_asset_photos ::
  "'w photo_world \<Rightarrow> 'w \<Rightarrow> plan_item list \<Rightarrow> bool
     \<Rightarrow> (sql_error + int list) \<times> 'w \<times> photo_event list" where
  "bulk_update_asset_photos world w [] conflictive = (Inr [], w, [])"
| "bulk_update_asset_photos world w (item # rest) conflictive =
     (case execute_update world w conflictive (plan_id item) (plan_photo_name item) of
        (Inl e, w1) \<Rightarrow>
          (Inl e, w1, [UpdatePhoto conflictive (plan_id item) (plan_photo_name item)])
      | (Inr updated_id, w1) \<Rightarrow>
          (case bulk_update_asset_photos world w1 rest conflictive of
             (Inl e, w2, evs) \<Rightarrow>
               (Inl e, w2, UpdatePhoto conflictive (plan_id item) (plan_photo_name item) # evs)
           | (Inr updated_ids, w2, evs) \<Rightarrow>
               (Inr ((case updated_id of
                        Some k \<Rightarrow> if k \<noteq> 0 then [k] else []
                      | None \<Rightarrow> []) @ updated_ids), w2,
                UpdatePhoto conflictive (plan_id item) (plan_photo_name item) # evs)))"

text \<open>
  The body of the \<open>try\<close> of phase 3: the regular table, then the conflictive table,
  then the commit. The result is the exception that leaves the body, or the keys whose
  update was confirmed.
\<close>

definition update_both_tables ::
  "'w photo_world \<Rightarrow> 'w \<Rightarrow> plan_item list \<Rightarrow> (sql_error + int list) \<times> 'w \<times> photo_event list" where
  "update_both_tables world w successful_uploads =
     (let regular_assets_data = filter (\<lambda>item. \<not> is_conflictive item) successful_uploads;
          conflictive_assets_data = filter is_conflictive successful_uploads
      in case bulk_update_asset_photos world w regular_assets_data False of
           (Inl e, w1, evs1) \<Rightarrow> (Inl e, w1, evs1)
         | (Inr updated_regular_ids, w1, evs1) \<Rightarrow>
             (case bulk_update_asset_photos world w1 conflictive_assets_data True of
                (Inl e, w2, evs2) \<Rightarrow> (Inl e, w2, evs1 @ evs2)
              | (Inr updated_conflictive_ids, w2, evs2) \<Rightarrow>
                  (case commit world w2 of
                     (Some e, w3) \<Rightarrow> (Inl e, w3, evs1 @ evs2 @ [Commit])
                   | (None, w3) \<Rightarrow>
                       (Inr (updated_regular_ids @ updated_conflictive_ids), w3,
                        evs1 @ evs2 @ [Commit]))))"

text \<open>
  Phase 3 with its handler: on any exception the transaction is rolled back and the
  set of confirmed keys is cleared.
\<close>

definition update_database ::
  "'w photo_world \<Rightarrow> 'w \<Rightarrow> plan_item list \<Rightarrow> int list \<times> 'w \<times> photo_event list" where
  "update_database world w successful_uploads =
     (if successful_uploads = [] then ([], w, [])
      else case update_both_tables world w successful_uploads of
             (Inr successful_db_updates, w1, evs) \<Rightarrow> (successful_db_updates, w1, evs)
           | (Inl e, w1, evs) \<Rightarrow> ([], rollback world w1, evs @ [Rollback]))"

text \<open>Phase 4: one result per saved item.\<close>

definition reconcile :: "int list \<Rightarrow> plan_item list \<Rightarrow> PhotoUploadResponse list" where
  "reconcile successful_db_updates successful_uploads =
     map (\<lambda>item. if plan_id item \<in> set successful_db_updates
                  then \<lparr>success = True, response_id = plan_id item,
                        photo_name = Some (plan_photo_name item), error_message = None\<rparr>
                  else inconsistent_response (plan_id item)) successful_uploads"

definition validate_request ::
  "photo_config \<Rightarrow> int list \<Rightarrow> UploadFile list \<Rightarrow> py_exception option" where
  "validate_request cfg ids_internos photos =
     (case validate_request_limits cfg photos of
        Some e \<Rightarrow> Some e
      | None \<Rightarrow>
          (case validate_photo_and_asset_length ids_internos photos of
             Some e \<Rightarrow> Some e
           | None \<Rightarrow>
               (case validate_photo_extensions cfg photos of
                  Some e \<Rightarrow> Some e
                | None \<Rightarrow> validate_photo_sizes cfg photos)))"

definition bulk_photo_upload ::
  "photo_config \<Rightarrow> 'w photo_world \<Rightarrow> 'w \<Rightarrow> int list \<Rightarrow> UploadFile list
     \<Rightarrow> (py_exception + BulkPhotoUploadResponse) \<times> 'w \<times> photo_event list" where
  "bulk_photo_upload cfg world w ids_internos photos =
     (case validate_request cfg ids_internos photos of
        Some e \<Rightarrow> (Inl e, w, [])
      | None \<Rightarrow>
          (let assets_dict = dict_by_id_interno (query_assets world w ids_internos);
               conflictive_assets_dict =
                 dict_by_id_interno (query_conflictive_assets world w ids_internos)
           in case build_upload_plan assets_dict conflictive_assets_dict
                     (zip ids_internos photos) of
                (upload_plan, found_none) \<Rightarrow>
                  (case save_photos world w upload_plan of
                     ((successful_uploads, failures), w1, evs1) \<Rightarrow>
                       (case update_database world w1 successful_uploads of
                          (successful_db_updates, w2, evs2) \<Rightarrow>
                            (let results = found_none @ failures
                                   @ reconcile successful_db_updates successful_uploads;
                                 total_successful = length (filter success results)
                             in (Inr \<lparr>total_processed = length ids_internos,
                                      total_successful = total_successful,
                                      total_failed = length ids_internos - total_successful,
                                      results = results\<rparr>,
                                 w2, evs1 @ evs2))))))"

subsection \<open>A sample world: the conflictive table is unreachable\<close>

text \<open>
  The primary table holds the keys 1 and 3, the conflictive table the key 2. Writing
  an empty photo fails; every statement on the conflictive table raises; the state is
  the list of the photo names written.
\<close>

definition demo_photo_world :: "string list photo_world" where
  "demo_photo_world =
     \<lparr>query_assets = (\<lambda>w ids. filter (\<lambda>a. id_interno a \<in> set ids) [row 1 7, row 3 7]),
      query_conflictive_assets = (\<lambda>w ids. filter (\<lambda>a. id_interno a \<in> set ids) [row 2 7]),
      write_photo = (\<lambda>w c name content.
                       if content = [] then (Some ''No space left on device'', w)
                       else (None, w @ [name])),
      execute_update = (\<lambda>w c k name.
                          if c then (Inl (DBAPIError ''08006''), w) else (Inr (Some k), w)),
      commit = (\<lambda>w. (None, w)),
      rollback = (\<lambda>w. w)\<rparr>"

definition demo_photo_config :: photo_config where
  "demo_photo_config =
     \<lparr>MAX_PHOTOS_PER_REQUEST = 100, ALLOWED_EXTENSIONS_LIST = [''jpg'', ''jpeg'', ''png''],
      MAX_PHOTO_FILE_SIZE = 5242880, max_size_mb_text = ''5.0''\<rparr>"

definition jpg_photo :: UploadFile where
  "jpg_photo = \<lparr>filename = ''IMG_1.JPG'', data = ''JFIF''\<rparr>"

definition png_photo :: UploadFile where
  "png_photo = \<lparr>filename = ''scan.png'', data = ''PNG''\<rparr>"

definition saved_name :: "int \<Rightarrow> string \<Rightarrow> string" where
  "saved_name k ext = ''20240309_'' @ str_int k @ ''_codigo_barra.'' @ ext"

definition success_response :: "int \<Rightarrow> string \<Rightarrow> PhotoUploadResponse" where
  "success_response k name =
     \<lparr>success = True, response_id = k, photo_name = Some name, error_message = None\<rparr>"

definition regular_item :: plan_item where
  "regular_item = make_plan_item (row 1 7) jpg_photo False 1"

definition conflictive_item :: plan_item where
  "conflictive_item = make_plan_item (row 2 7) png_photo True 2"

section \<open>Properties of the task store and the admission gate\<close>

lemma get_report_path_inj [simp]:
  "get_report_path t s = get_report_path t' s' \<longleftrightarrow> t = t' \<and> s = s'"
proof
  assume "get_report_path t s = get_report_path t' s'"
  then have "rev (get_report_path t s) = rev (get_report_path t' s')" by simp
  then show "t = t' \<and> s = s'"
    by (cases s; cases s'; simp add: get_report_path.simps)
qed simp

lemma path_exists_write:
  "write_file d p c now = Some d' \<Longrightarrow> path_exists d' q = (q = p \<or> path_exists d q)"
  by (auto simp: write_file_def path_exists_def update_conv' split: if_splits)

lemma path_exists_touch:
  "touch d p now = Some d' \<Longrightarrow> path_exists d' q = (q = p \<or> path_exists d q)"
  by (auto simp: touch_def path_exists_def update_conv' split: if_splits)

lemma path_exists_unlink:
  "unlink d p = Some d' \<Longrightarrow> path_exists d' q = (q \<noteq> p \<and> path_exists d q)"
  by (auto simp: unlink_def path_exists_def delete_conv' split: if_splits)

lemma cleanup_loop_only_deletes:
  "path_exists (snd (cleanup_loop e fs d n)) q \<Longrightarrow> path_exists d q"
proof (induction fs arbitrary: d n)
  case Nil
  then show ?case by simp
next
  case (Cons a fs)
  obtain name f where a: "a = (name, f)" by (cases a)
  show ?case
  proof (cases "mtime f < e")
    case True
    show ?thesis
    proof (cases "unlink d name")
      case None
      with Cons True a show ?thesis by simp
    next
      case (Some d')
      with Cons.prems True a have "path_exists (snd (cleanup_loop e fs d' (n + 1))) q" by simp
      then have "path_exists d' q" by (rule Cons.IH)
      with Some show ?thesis by (simp add: path_exists_unlink)
    qed
  next
    case False
    with Cons a show ?thesis by simp
  qed
qed

lemma apply_op_creates:
  "path_exists (apply_op d op) q \<Longrightarrow> path_exists d q \<or> creates op = Some q"
proof (cases op)
  case (Submit t now)
  assume "path_exists (apply_op d op) q"
  with Submit show ?thesis
    by (auto simp: create_pending_report_def path_exists_touch split: option.splits)
next
  case (Complete t c now)
  assume "path_exists (apply_op d op) q"
  with Complete show ?thesis
    by (auto simp: mark_report_completed_def mark_report_completed_ops_def Let_def
        path_exists_write path_exists_unlink split: option.splits if_splits)
next
  case (Fail t m now)
  assume "path_exists (apply_op d op) q"
  with Fail show ?thesis
    by (auto simp: mark_report_failed_def mark_report_failed_ops_def Let_def
        path_exists_write path_exists_unlink split: option.splits if_splits)
next
  case (Sweep now)
  assume "path_exists (apply_op d op) q"
  with Sweep show ?thesis
    by (auto simp: cleanup_old_reports_def Let_def dest: cleanup_loop_only_deletes)
qed

lemma apply_op_keeps:
  "path_exists d q \<Longrightarrow> \<not> is_sweep op \<Longrightarrow> removes op \<noteq> Some q
     \<Longrightarrow> path_exists (apply_op d op) q"
proof (cases op)
  case (Submit t now)
  assume "path_exists d q"
  with Submit show ?thesis
    by (auto simp: create_pending_report_def path_exists_touch split: option.splits)
next
  case (Complete t c now)
  assume "path_exists d q" "removes op \<noteq> Some q"
  with Complete show ?thesis
    by (auto simp: mark_report_completed_def mark_report_completed_ops_def Let_def
        path_exists_write path_exists_unlink split: option.splits if_splits)
next
  case (Fail t m now)
  assume "path_exists d q" "removes op \<noteq> Some q"
  with Fail show ?thesis
    by (auto simp: mark_report_failed_def mark_report_failed_ops_def Let_def
        path_exists_write path_exists_unlink split: option.splits if_splits)
next
  case (Sweep now)
  assume "\<not> is_sweep op"
  with Sweep show ?thesis by simp
qed


lemma touch_creates:
  "touch d p now = Some d' \<Longrightarrow> path_exists d' p"
  by (auto simp: touch_def path_exists_def update_conv' split: if_splits)

lemma run_creates:
  "path_exists (run d ops) q \<Longrightarrow> path_exists d q \<or> (\<exists>op\<in>set ops. creates op = Some q)"
proof (induction ops arbitrary: d)
  case Nil
  then show ?case by (simp add: run_def)
next
  case (Cons op ops)
  then have "path_exists (run (apply_op d op) ops) q" by (simp add: run_def)
  then have "path_exists (apply_op d op) q \<or> (\<exists>op\<in>set ops. creates op = Some q)"
    by (rule Cons.IH)
  then show ?case using apply_op_creates [of d op q] by auto
qed

lemma run_keeps:
  "path_exists d q \<Longrightarrow> \<forall>op\<in>set ops. \<not> is_sweep op \<and> removes op \<noteq> Some q
     \<Longrightarrow> path_exists (run d ops) q"
proof (induction ops arbitrary: d)
  case Nil
  then show ?case by (simp add: run_def)
next
  case (Cons op ops)
  then have "path_exists (apply_op d op) q" by (simp add: apply_op_keeps)
  with Cons have "path_exists (run (apply_op d op) ops) q" by simp
  then show ?case by (simp add: run_def)
qed

lemma creates_task: "creates op = Some (get_report_path t s) \<Longrightarrow> op_task op = Some t"
  by (cases op) (auto simp: get_report_path_inj)

lemma removes_task: "removes op = Some (get_report_path t s) \<Longrightarrow> op_task op = Some t"
  by (cases op) (auto simp: get_report_path_inj)

lemma creates_fail: "creates op = Some (get_report_path t s) \<Longrightarrow> is_fail op \<Longrightarrow> s = FAILED"
  by (cases op) (auto simp: get_report_path_inj)

lemma removes_not_pending: "s \<noteq> PENDING \<Longrightarrow> removes op \<noteq> Some (get_report_path t s)"
  by (cases op) (auto simp: get_report_path_inj)

lemma status_completed:
  "path_exists d (get_report_path t COMPLETED) \<Longrightarrow> fst (get_report_status d t) = Some COMPLETED"
  by (simp add: get_report_status_def)

lemma status_pending:
  "\<not> path_exists d (get_report_path t COMPLETED) \<Longrightarrow> path_exists d (get_report_path t PENDING)
     \<Longrightarrow> fst (get_report_status d t) = Some PENDING"
  by (simp add: get_report_status_def)

lemma status_failed:
  "\<not> path_exists d (get_report_path t COMPLETED) \<Longrightarrow> \<not> path_exists d (get_report_path t PENDING)
     \<Longrightarrow> path_exists d (get_report_path t FAILED)
     \<Longrightarrow> fst (get_report_status d t) = Some FAILED"
  by (auto simp: get_report_status_def split: option.splits)

lemma status_none:
  "\<not> path_exists d (get_report_path t COMPLETED) \<Longrightarrow> \<not> path_exists d (get_report_path t PENDING)
     \<Longrightarrow> \<not> path_exists d (get_report_path t FAILED)
     \<Longrightarrow> fst (get_report_status d t) = None"
  by (simp add: get_report_status_def)

lemma markers_of_Nil:
  "markers_of d t = [] \<longleftrightarrow> (\<forall>s. \<not> path_exists d (get_report_path t s))"
proof
  assume e: "markers_of d t = []"
  show "\<forall>s. \<not> path_exists d (get_report_path t s)"
  proof
    fix s
    from e show "\<not> path_exists d (get_report_path t s)"
      by (cases s) (simp_all add: markers_of_def split: if_splits)
  qed
next
  assume "\<forall>s. \<not> path_exists d (get_report_path t s)"
  then show "markers_of d t = []" by (simp add: markers_of_def)
qed

lemma transition_ops_cases:
  assumes "(case write_file d np c now of
              None \<Rightarrow> (False, [])
            | Some d1 \<Rightarrow>
                if path_exists d1 pp
                then (case unlink d1 pp of None \<Rightarrow> (False, [d1]) | Some d2 \<Rightarrow> (True, [d1, d2]))
                else (True, [d1])) = (True, ds)"
  shows "\<exists>d1. write_file d np c now = Some d1
            \<and> ((\<not> path_exists d1 pp \<and> ds = [d1])
               \<or> (\<exists>d2. path_exists d1 pp \<and> unlink d1 pp = Some d2 \<and> ds = [d1, d2]))"
proof (cases "write_file d np c now")
  case None
  with assms show ?thesis by simp
next
  case (Some d1)
  show ?thesis
  proof (cases "path_exists d1 pp")
    case False
    with Some assms show ?thesis by auto
  next
    case True
    with Some assms show ?thesis by (cases "unlink d1 pp") auto
  qed
qed

lemma completed_ok:
  assumes "mark_report_completed d t c now = (True, d')"
  shows "path_exists d' (get_report_path t COMPLETED)"
proof -
  obtain ds where ops: "mark_report_completed_ops d t c now = (True, ds)" and d': "d' = last (d # ds)"
    using assms by (auto simp: mark_report_completed_def split: prod.splits)
  from ops obtain d1 where w: "write_file d (get_report_path t COMPLETED) c now = Some d1"
    and alt: "(\<not> path_exists d1 (get_report_path t PENDING) \<and> ds = [d1])
       \<or> (\<exists>d2. path_exists d1 (get_report_path t PENDING)
              \<and> unlink d1 (get_report_path t PENDING) = Some d2 \<and> ds = [d1, d2])"
    using transition_ops_cases [OF ops [unfolded mark_report_completed_ops_def Let_def]]
    by blast
  from w have e1: "path_exists d1 (get_report_path t COMPLETED)"
    by (simp add: path_exists_write)
  from alt show ?thesis
  proof
    assume "\<not> path_exists d1 (get_report_path t PENDING) \<and> ds = [d1]"
    with d' e1 show ?thesis by simp
  next
    assume "\<exists>d2. path_exists d1 (get_report_path t PENDING)
              \<and> unlink d1 (get_report_path t PENDING) = Some d2 \<and> ds = [d1, d2]"
    then obtain d2 where u: "unlink d1 (get_report_path t PENDING) = Some d2" and "ds = [d1, d2]"
      by blast
    with d' e1 show ?thesis by (simp add: path_exists_unlink [OF u])
  qed
qed

lemma failed_ok:
  assumes "mark_report_failed d t m now = (True, d')"
  shows "path_exists d' (get_report_path t FAILED) \<and> \<not> path_exists d' (get_report_path t PENDING)
     \<and> (path_exists d' (get_report_path t COMPLETED) \<longrightarrow> path_exists d (get_report_path t COMPLETED))"
proof -
  obtain ds where ops: "mark_report_failed_ops d t m now = (True, ds)" and d': "d' = last (d # ds)"
    using assms by (auto simp: mark_report_failed_def split: prod.splits)
  from ops obtain d1 where
    w: "write_file d (get_report_path t FAILED)
          (if m = [] then ''Report generation failed'' else m) now = Some d1"
    and alt: "(\<not> path_exists d1 (get_report_path t PENDING) \<and> ds = [d1])
       \<or> (\<exists>d2. path_exists d1 (get_report_path t PENDING)
              \<and> unlink d1 (get_report_path t PENDING) = Some d2 \<and> ds = [d1, d2])"
    using transition_ops_cases [OF ops [unfolded mark_report_failed_ops_def Let_def]]
    by blast
  note e1 = path_exists_write [OF w]
  from alt show ?thesis
  proof
    assume "\<not> path_exists d1 (get_report_path t PENDING) \<and> ds = [d1]"
    with d' e1 show ?thesis by simp
  next
    assume "\<exists>d2. path_exists d1 (get_report_path t PENDING)
              \<and> unlink d1 (get_report_path t PENDING) = Some d2 \<and> ds = [d1, d2]"
    then obtain d2 where u: "unlink d1 (get_report_path t PENDING) = Some d2" and "ds = [d1, d2]"
      by blast
    with d' e1 show ?thesis by (simp add: path_exists_unlink [OF u])
  qed
qed

lemma submit_ok:
  "create_pending_report d t now = (True, d') \<Longrightarrow>
     path_exists d' (get_report_path t PENDING)
     \<and> (path_exists d' (get_report_path t COMPLETED) \<longrightarrow> path_exists d (get_report_path t COMPLETED))"
  by (auto simp: create_pending_report_def path_exists_touch split: option.splits)

text \<open>
  C3. Under sequential calls, for every state of the task store, the admission decision
  is exactly the comparison of the number of pending markers with the ceiling: at or
  above the ceiling \<open>can_start_new_report\<close> refuses with a reason that carries the
  current count, and the route answers a request that reached the gate with 429 and that
  reason, leaving the store untouched; strictly below the ceiling the gate admits, and
  a request whose lookups resolve gets its pending marker and the pending response.
\<close>

theorem admission_gate_decides:
  "(MAX_CONCURRENT_REPORTS \<le> count_pending_reports d \<longrightarrow>
      can_start_new_report d = (False, Some (busy_reason (count_pending_reports d)))
    \<and> (dates_valid rq \<longrightarrow>
         initiate_assets_excel_report db d rq tid now
           = (Inl (HTTPException 429 (busy_reason (count_pending_reports d))), d, [])))
   \<and> (count_pending_reports d < MAX_CONCURRENT_REPORTS \<longrightarrow>
      can_start_new_report d = (True, None)
    \<and> (dates_valid rq \<and> lookups_resolve db rq
           \<and> get_report_path tid PENDING \<notin> set (faulty d) \<longrightarrow>
         (\<exists>d' bg. initiate_assets_excel_report db d rq tid now
                    = (Inr (pending_response tid), d', bg)
                  \<and> path_exists d' (get_report_path tid PENDING))))"
proof (intro conjI impI)
  assume "MAX_CONCURRENT_REPORTS \<le> count_pending_reports d"
  then show g: "can_start_new_report d = (False, Some (busy_reason (count_pending_reports d)))"
    by (simp add: can_start_new_report_def Let_def)
  assume "dates_valid rq"
  with g show "initiate_assets_excel_report db d rq tid now
              = (Inl (HTTPException 429 (busy_reason (count_pending_reports d))), d, [])"
    by (simp add: initiate_assets_excel_report_def initiate_assets_excel_report_body_def
          dates_valid_def Let_def)
next
  assume "count_pending_reports d < MAX_CONCURRENT_REPORTS"
  then show g: "can_start_new_report d = (True, None)"
    by (simp add: can_start_new_report_def Let_def)
  assume ok: "dates_valid rq \<and> lookups_resolve db rq
                \<and> get_report_path tid PENDING \<notin> set (faulty d)"
  then have dv: "dates_valid rq" by simp
  from ok obtain c where
    c: "get_contract_project_by_id_or_nombre db (contract_name rq) = Inr (Some c)"
    by (auto simp: lookups_resolve_def)
  from ok obtain d' where t: "touch d (get_report_path tid PENDING) now = Some d'"
    by (auto simp: touch_def)
  then have ex: "path_exists d' (get_report_path tid PENDING)"
    by (rule touch_creates)
  from t have cp: "create_pending_report d tid now = (True, d')"
    by (simp add: create_pending_report_def)
  show "\<exists>d' bg. initiate_assets_excel_report db d rq tid now
                    = (Inr (pending_response tid), d', bg)
                  \<and> path_exists d' (get_report_path tid PENDING)"
  proof (cases "element_type rq")
    case None
    with dv g c cp ex show ?thesis
      by (simp add: initiate_assets_excel_report_def initiate_assets_excel_report_body_def
          dates_valid_def Let_def pending_response_def)
  next
    case (Some et)
    with ok obtain x where "get_element_type_by_id_or_nombre db et = Inr (Some x)"
      by (auto simp: lookups_resolve_def)
    with Some dv g c cp ex show ?thesis
      by (simp add: initiate_assets_excel_report_def initiate_assets_excel_report_body_def
          dates_valid_def Let_def pending_response_def)
  qed
qed

theorem admission_gate_decides_witness:
  "MAX_CONCURRENT_REPORTS \<le> count_pending_reports busy_dir
   \<and> dates_valid demo_request
   \<and> initiate_assets_excel_report demo_db busy_dir demo_request ''t1'' 20
       = (Inl (HTTPException 429 (busy_reason 1)), busy_dir, [])
   \<and> count_pending_reports empty_dir < MAX_CONCURRENT_REPORTS
   \<and> lookups_resolve demo_db demo_request
   \<and> get_report_path ''t1'' PENDING \<notin> set (faulty empty_dir)
   \<and> fst (initiate_assets_excel_report demo_db empty_dir demo_request ''t1'' 20)
       = Inr (pending_response ''t1'')"
proof -
  have v: "dates_valid demo_request"
    by (simp add: dates_valid_def demo_request_def)
  have c1: "count_pending_reports busy_dir = 1"
    by (simp add: count_pending_reports_def busy_dir_def ends_with_def)
  have c0: "count_pending_reports empty_dir = 0"
    by (simp add: count_pending_reports_def empty_dir_def)
  have lr: "lookups_resolve demo_db demo_request"
    by (simp add: lookups_resolve_def demo_db_def demo_request_def
        get_contract_project_by_id_or_nombre_def strip_def is_space_def)
  have nf: "get_report_path ''t1'' PENDING \<notin> set (faulty empty_dir)"
    by (simp add: empty_dir_def)
  from admission_gate_decides [of busy_dir demo_request demo_db "''t1''" 20] c1 v
  have a: "initiate_assets_excel_report demo_db busy_dir demo_request ''t1'' 20
       = (Inl (HTTPException 429 (busy_reason 1)), busy_dir, [])"
    by (simp add: MAX_CONCURRENT_REPORTS_def)
  from admission_gate_decides [of empty_dir demo_request demo_db "''t1''" 20] c0 lr v nf
  have b: "fst (initiate_assets_excel_report demo_db empty_dir demo_request ''t1'' 20)
       = Inr (pending_response ''t1'')"
    by (auto simp: MAX_CONCURRENT_REPORTS_def)
  from v c1 c0 lr nf a b show ?thesis by (simp add: MAX_CONCURRENT_REPORTS_def)
qed

text \<open>
  C4 (as amended). For every task id: while the id has no file, and whatever is done to
  other ids, \<open>get_report_status\<close> answers \<open>None\<close>; after a successful submit of an id
  without files the status is pending and stays pending under calls for other ids;
  once \<open>mark_report_completed\<close> has succeeded the status stays completed under every
  further submit, complete and fail; once \<open>mark_report_failed\<close> has succeeded for an id
  without a completed artifact the status stays failed under further fail calls for the
  id and under calls for other ids. The expiration sweep is excluded from all but the
  first part.
\<close>

theorem status_lifecycle:
  "(markers_of d t = [] \<and> (\<forall>op\<in>set ops. op_task op \<noteq> Some t)
      \<longrightarrow> fst (get_report_status (run d ops) t) = None)
   \<and> (markers_of d t = [] \<and> create_pending_report d t now = (True, dp)
        \<and> (\<forall>op\<in>set ops. op_task op \<noteq> Some t \<and> \<not> is_sweep op)
      \<longrightarrow> fst (get_report_status (run dp ops) t) = Some PENDING)
   \<and> (mark_report_completed d t c now = (True, dc) \<and> (\<forall>op\<in>set ops. \<not> is_sweep op)
      \<longrightarrow> fst (get_report_status (run dc ops) t) = Some COMPLETED)
   \<and> (\<not> path_exists d (get_report_path t COMPLETED) \<and> mark_report_failed d t m now = (True, df)
        \<and> (\<forall>op\<in>set ops. \<not> is_sweep op \<and> (op_task op = Some t \<longrightarrow> is_fail op))
      \<longrightarrow> fst (get_report_status (run df ops) t) = Some FAILED)"
proof (intro conjI impI)
  assume a: "markers_of d t = [] \<and> (\<forall>op\<in>set ops. op_task op \<noteq> Some t)"
  then have none: "\<And>s. \<not> path_exists d (get_report_path t s)"
    by (simp add: markers_of_Nil)
  have nx: "\<not> path_exists (run d ops) (get_report_path t s)" for s
    using run_creates [of d ops "get_report_path t s"] none a creates_task by blast
  show "fst (get_report_status (run d ops) t) = None"
    by (rule status_none) (rule nx)+
next
  assume a: "markers_of d t = [] \<and> create_pending_report d t now = (True, dp)
        \<and> (\<forall>op\<in>set ops. op_task op \<noteq> Some t \<and> \<not> is_sweep op)"
  then have none: "\<And>s. \<not> path_exists d (get_report_path t s)"
    by (simp add: markers_of_Nil)
  from a have pp: "path_exists dp (get_report_path t PENDING)"
    and cp: "\<not> path_exists dp (get_report_path t COMPLETED)"
    using submit_ok [of d t now dp] none by auto
  from a have "\<forall>op\<in>set ops. \<not> is_sweep op \<and> removes op \<noteq> Some (get_report_path t PENDING)"
    using removes_task by blast
  with pp have p: "path_exists (run dp ops) (get_report_path t PENDING)"
    by (rule run_keeps)
  have "\<not> path_exists (run dp ops) (get_report_path t COMPLETED)"
    using run_creates [of dp ops "get_report_path t COMPLETED"] cp a creates_task by blast
  with p show "fst (get_report_status (run dp ops) t) = Some PENDING"
    by (simp add: status_pending)
next
  assume a: "mark_report_completed d t c now = (True, dc) \<and> (\<forall>op\<in>set ops. \<not> is_sweep op)"
  then have "path_exists dc (get_report_path t COMPLETED)"
    using completed_ok [of d t c now dc] by simp
  moreover from a have
    "\<forall>op\<in>set ops. \<not> is_sweep op \<and> removes op \<noteq> Some (get_report_path t COMPLETED)"
    by (simp add: removes_not_pending)
  ultimately have "path_exists (run dc ops) (get_report_path t COMPLETED)"
    by (rule run_keeps)
  then show "fst (get_report_status (run dc ops) t) = Some COMPLETED"
    by (rule status_completed)
next
  assume a: "\<not> path_exists d (get_report_path t COMPLETED) \<and> mark_report_failed d t m now = (True, df)
        \<and> (\<forall>op\<in>set ops. \<not> is_sweep op \<and> (op_task op = Some t \<longrightarrow> is_fail op))"
  then have f3: "path_exists df (get_report_path t FAILED)"
    and p3: "\<not> path_exists df (get_report_path t PENDING)"
    and c3: "\<not> path_exists df (get_report_path t COMPLETED)"
    using failed_ok [of d t m now df] by auto
  from a have "\<forall>op\<in>set ops. \<not> is_sweep op \<and> removes op \<noteq> Some (get_report_path t FAILED)"
    by (simp add: removes_not_pending)
  with f3 have f: "path_exists (run df ops) (get_report_path t FAILED)"
    by (rule run_keeps)
  have nocreate: "creates op \<noteq> Some (get_report_path t s)" if "op \<in> set ops" "s \<noteq> FAILED" for op s
    using that a creates_task creates_fail by blast
  have p: "\<not> path_exists (run df ops) (get_report_path t PENDING)"
    using run_creates [of df ops "get_report_path t PENDING"] p3 nocreate by auto
  have c: "\<not> path_exists (run df ops) (get_report_path t COMPLETED)"
    using run_creates [of df ops "get_report_path t COMPLETED"] c3 nocreate by auto
  from c p f show "fst (get_report_status (run df ops) t) = Some FAILED"
    by (rule status_failed)
qed

theorem status_lifecycle_witness:
  "markers_of empty_dir ''t1'' = []
   \<and> fst (get_report_status (run empty_dir [Submit ''t2'' 15, Sweep 20]) ''t1'') = None
   \<and> create_pending_report empty_dir ''t1'' 10 = (True, pending_t1_dir)
   \<and> fst (get_report_status (run pending_t1_dir [Submit ''t2'' 15]) ''t1'') = Some PENDING
   \<and> mark_report_completed pending_t1_dir ''t1'' ''PK'' 20 = (True, completed_t1_dir)
   \<and> fst (get_report_status
           (run completed_t1_dir [Fail ''t1'' ''late'' 30, Submit ''t1'' 40]) ''t1'') = Some COMPLETED
   \<and> \<not> path_exists pending_t1_dir (get_report_path ''t1'' COMPLETED)
   \<and> mark_report_failed pending_t1_dir ''t1'' ''boom'' 20 = (True, failed_t1_dir)
   \<and> fst (get_report_status
           (run failed_t1_dir [Fail ''t1'' ''again'' 30, Complete ''t2'' ''PK'' 40]) ''t1'') = Some FAILED"
proof -
  have m: "markers_of empty_dir ''t1'' = []"
    by (simp add: markers_of_def empty_dir_def path_exists_def)
  have s: "create_pending_report empty_dir ''t1'' 10 = (True, pending_t1_dir)"
    by (simp add: create_pending_report_def touch_def empty_dir_def pending_t1_dir_def
        get_report_path.simps)
  have c: "mark_report_completed pending_t1_dir ''t1'' ''PK'' 20 = (True, completed_t1_dir)"
    by (simp add: mark_report_completed_def mark_report_completed_ops_def write_file_def
        unlink_def path_exists_def pending_t1_dir_def completed_t1_dir_def
        get_report_path.simps Let_def)
  have n: "\<not> path_exists pending_t1_dir (get_report_path ''t1'' COMPLETED)"
    by (simp add: path_exists_def pending_t1_dir_def get_report_path.simps)
  have f: "mark_report_failed pending_t1_dir ''t1'' ''boom'' 20 = (True, failed_t1_dir)"
    by (simp add: mark_report_failed_def mark_report_failed_ops_def write_file_def
        unlink_def path_exists_def pending_t1_dir_def failed_t1_dir_def
        get_report_path.simps Let_def)
  have a: "fst (get_report_status (run empty_dir [Submit ''t2'' 15, Sweep 20]) ''t1'') = None"
    using status_lifecycle [where d = empty_dir and t = "''t1''"
        and ops = "[Submit ''t2'' 15, Sweep 20]"] m by simp
  have b: "fst (get_report_status (run pending_t1_dir [Submit ''t2'' 15]) ''t1'') = Some PENDING"
    using status_lifecycle [where d = empty_dir and t = "''t1''" and ops = "[Submit ''t2'' 15]"
        and now = 10 and dp = pending_t1_dir] m s
    by simp
  have c': "fst (get_report_status
           (run completed_t1_dir [Fail ''t1'' ''late'' 30, Submit ''t1'' 40]) ''t1'') = Some COMPLETED"
    using status_lifecycle [where d = pending_t1_dir and t = "''t1''"
        and ops = "[Fail ''t1'' ''late'' 30, Submit ''t1'' 40]"
        and c = "''PK''" and now = 20 and dc = completed_t1_dir] c
    by simp
  have f': "fst (get_report_status
           (run failed_t1_dir [Fail ''t1'' ''again'' 30, Complete ''t2'' ''PK'' 40]) ''t1'') = Some FAILED"
    using status_lifecycle [where d = pending_t1_dir and t = "''t1''"
        and ops = "[Fail ''t1'' ''again'' 30, Complete ''t2'' ''PK'' 40]"
        and now = 20 and m = "''boom''" and df = failed_t1_dir] n f
    by simp
  from m s c n f a b c' f' show ?thesis by simp
qed

text \<open>
  C4 as stated fails on the permanence of the failed state: after a submit and a
  successful fail the status is failed, and a later complete for the same id turns it
  into completed.
\<close>

theorem status_lifecycle_counterexample:
  "fst (mark_report_failed (run empty_dir [Submit ''t1'' 10]) ''t1'' ''boom'' 20) = True
   \<and> fst (get_report_status (run empty_dir [Submit ''t1'' 10, Fail ''t1'' ''boom'' 20]) ''t1'')
       = Some FAILED
   \<and> fst (get_report_status
           (run empty_dir [Submit ''t1'' 10, Fail ''t1'' ''boom'' 20, Complete ''t1'' ''PK'' 30])
           ''t1'') = Some COMPLETED"
  by (simp add: run_def empty_dir_def create_pending_report_def touch_def mark_report_failed_def
      mark_report_failed_ops_def mark_report_completed_def mark_report_completed_ops_def
      write_file_def unlink_def path_exists_def get_report_status_def
      get_report_path.simps Let_def)

lemma markers_of_pending_only:
  "markers_of d t = [PENDING] \<longleftrightarrow>
     path_exists d (get_report_path t PENDING) \<and> \<not> path_exists d (get_report_path t COMPLETED)
     \<and> \<not> path_exists d (get_report_path t FAILED)"
  by (simp add: markers_of_def)

lemma write_file_ok:
  "p \<notin> set (faulty d) \<Longrightarrow> \<exists>d1. write_file d p c now = Some d1 \<and> faulty d1 = faulty d"
  by (simp add: write_file_def)

lemma unlink_ok:
  "p \<notin> set (faulty d) \<Longrightarrow> path_exists d p \<Longrightarrow> \<exists>d2. unlink d p = Some d2"
  by (simp add: unlink_def)


text \<open>
  C2 (as amended). For every task id whose only file is the pending marker, and whose
  files can be written and removed, each transition first creates the new record and
  then deletes the pending marker: the transition is two file operations, after the
  first both the pending marker and the new record exist, after the second only the new
  record exists. \<open>get_report_status\<close> at the intermediate point answers the new state
  for a completion and the old state for a failure, and the new state at the end.
\<close>

theorem transition_creates_then_deletes:
  assumes only: "markers_of d t = [PENDING]"
    and healthy: "\<forall>s. get_report_path t s \<notin> set (faulty d)"
  shows "(\<exists>d1 d2. mark_report_completed_ops d t c now = (True, [d1, d2])
            \<and> markers_of d1 t = [PENDING, COMPLETED] \<and> markers_of d2 t = [COMPLETED]
            \<and> fst (get_report_status d1 t) = Some COMPLETED
            \<and> fst (get_report_status d2 t) = Some COMPLETED)
       \<and> (\<exists>d1 d2. mark_report_failed_ops d t m now = (True, [d1, d2])
            \<and> markers_of d1 t = [PENDING, FAILED] \<and> markers_of d2 t = [FAILED]
            \<and> fst (get_report_status d1 t) = Some PENDING
            \<and> fst (get_report_status d2 t) = Some FAILED)"
proof
  from only have p: "path_exists d (get_report_path t PENDING)"
    and nc: "\<not> path_exists d (get_report_path t COMPLETED)"
    and nf: "\<not> path_exists d (get_report_path t FAILED)"
    by (simp_all add: markers_of_pending_only)
  {
    fix s :: ReportStatus and body :: string
    assume s: "s \<noteq> PENDING"
    from healthy obtain d1 where
      w: "write_file d (get_report_path t s) body now = Some d1" and f1: "faulty d1 = faulty d"
      using write_file_ok by blast
    note e1 = path_exists_write [OF w]
    from p have p1: "path_exists d1 (get_report_path t PENDING)" by (simp add: e1)
    from healthy f1 have "get_report_path t PENDING \<notin> set (faulty d1)" by simp
    with p1 obtain d2 where u: "unlink d1 (get_report_path t PENDING) = Some d2"
      using unlink_ok by blast
    note e2 = path_exists_unlink [OF u]
    have "\<exists>d1 d2. write_file d (get_report_path t s) body now = Some d1
             \<and> path_exists d1 (get_report_path t PENDING)
             \<and> unlink d1 (get_report_path t PENDING) = Some d2
             \<and> (\<forall>q. path_exists d1 q = (q = get_report_path t s \<or> path_exists d q))
             \<and> (\<forall>q. path_exists d2 q
                    = (q \<noteq> get_report_path t PENDING
                        \<and> (q = get_report_path t s \<or> path_exists d q)))"
      using w p1 u e1 e2 by auto
  }
  note step = this
  show "\<exists>d1 d2. mark_report_completed_ops d t c now = (True, [d1, d2])
            \<and> markers_of d1 t = [PENDING, COMPLETED] \<and> markers_of d2 t = [COMPLETED]
            \<and> fst (get_report_status d1 t) = Some COMPLETED
            \<and> fst (get_report_status d2 t) = Some COMPLETED"
  proof -
    from step [of COMPLETED c] obtain d1 d2 where
      w: "write_file d (get_report_path t COMPLETED) c now = Some d1"
      and p1: "path_exists d1 (get_report_path t PENDING)"
      and u: "unlink d1 (get_report_path t PENDING) = Some d2"
      and e1: "\<And>q. path_exists d1 q = (q = get_report_path t COMPLETED \<or> path_exists d q)"
      and e2: "\<And>q. path_exists d2 q = (q \<noteq> get_report_path t PENDING
                        \<and> (q = get_report_path t COMPLETED \<or> path_exists d q))"
      by auto
    have ops: "mark_report_completed_ops d t c now = (True, [d1, d2])"
      by (simp add: mark_report_completed_ops_def Let_def w p1 u)
    have m1: "markers_of d1 t = [PENDING, COMPLETED]"
      by (simp add: markers_of_def e1 p nc nf)
    have m2: "markers_of d2 t = [COMPLETED]"
      by (simp add: markers_of_def e2 p nc nf)
    have s1: "fst (get_report_status d1 t) = Some COMPLETED"
      by (rule status_completed) (simp add: e1)
    have s2: "fst (get_report_status d2 t) = Some COMPLETED"
      by (rule status_completed) (simp add: e2)
    from ops m1 m2 s1 s2 show ?thesis by blast
  qed
  show "\<exists>d1 d2. mark_report_failed_ops d t m now = (True, [d1, d2])
            \<and> markers_of d1 t = [PENDING, FAILED] \<and> markers_of d2 t = [FAILED]
            \<and> fst (get_report_status d1 t) = Some PENDING
            \<and> fst (get_report_status d2 t) = Some FAILED"
  proof -
    let ?body = "if m = [] then ''Report generation failed'' else m"
    from step [of FAILED ?body] obtain d1 d2 where
      w: "write_file d (get_report_path t FAILED) ?body now = Some d1"
      and p1: "path_exists d1 (get_report_path t PENDING)"
      and u: "unlink d1 (get_report_path t PENDING) = Some d2"
      and e1: "\<And>q. path_exists d1 q = (q = get_report_path t FAILED \<or> path_exists d q)"
      and e2: "\<And>q. path_exists d2 q = (q \<noteq> get_report_path t PENDING
                        \<and> (q = get_report_path t FAILED \<or> path_exists d q))"
      by auto
    have ops: "mark_report_failed_ops d t m now = (True, [d1, d2])"
      using w p1 u by (simp add: mark_report_failed_ops_def Let_def)
    have m1: "markers_of d1 t = [PENDING, FAILED]"
      by (simp add: markers_of_def e1 p nc nf)
    have m2: "markers_of d2 t = [FAILED]"
      by (simp add: markers_of_def e2 p nc nf)
    have s1: "fst (get_report_status d1 t) = Some PENDING"
      by (rule status_pending) (simp_all add: e1 nc p)
    have s2: "fst (get_report_status d2 t) = Some FAILED"
      by (rule status_failed) (simp_all add: e2 nc)
    from ops m1 m2 s1 s2 show ?thesis by blast
  qed
qed

theorem transition_creates_then_deletes_witness:
  "markers_of busy_dir ''t0'' = [PENDING]
   \<and> (\<forall>s. get_report_path ''t0'' s \<notin> set (faulty busy_dir))
   \<and> (\<exists>d1 d2. mark_report_completed_ops busy_dir ''t0'' ''PK'' 20 = (True, [d1, d2])
          \<and> markers_of d1 ''t0'' = [PENDING, COMPLETED] \<and> markers_of d2 ''t0'' = [COMPLETED])
   \<and> (\<exists>d1 d2. mark_report_failed_ops busy_dir ''t0'' ''boom'' 20 = (True, [d1, d2])
          \<and> markers_of d1 ''t0'' = [PENDING, FAILED] \<and> markers_of d2 ''t0'' = [FAILED])"
proof -
  have m: "markers_of busy_dir ''t0'' = [PENDING]"
    by (simp add: busy_dir_def markers_of_def path_exists_def get_report_path.simps)
  have h: "\<forall>s. get_report_path ''t0'' s \<notin> set (faulty busy_dir)"
    by (simp add: busy_dir_def)
  from transition_creates_then_deletes [OF m h, of "''PK''" 20 "''boom''"] m h
  show ?thesis by blast
qed

text \<open>
  C2 as stated fails inside the completion: the store with the single pending marker
  of \<open>t0\<close> satisfies the invariant, and after the first file operation of
  \<open>mark_report_completed\<close> both the pending marker and the artifact exist.
\<close>

theorem single_marker_counterexample:
  "at_most_one_marker busy_dir ''t0''
   \<and> fst (mark_report_completed_ops busy_dir ''t0'' ''PK'' 20) = True
   \<and> markers_of (hd (snd (mark_report_completed_ops busy_dir ''t0'' ''PK'' 20))) ''t0''
       = [PENDING, COMPLETED]
   \<and> \<not> at_most_one_marker (hd (snd (mark_report_completed_ops busy_dir ''t0'' ''PK'' 20))) ''t0''"
  by (simp add: at_most_one_marker_def markers_of_def busy_dir_def mark_report_completed_ops_def
      write_file_def unlink_def path_exists_def get_report_path.simps Let_def)

section \<open>Properties of the background orchestrator\<close>

lemma write_file_lookup:
  "write_file d p c now = Some d1 \<Longrightarrow>
     map_of (entries d1) = (map_of (entries d))(p \<mapsto> \<lparr>content = c, mtime = now\<rparr>)"
  by (auto simp: write_file_def update_conv' split: if_splits)

lemma unlink_lookup:
  "unlink d p = Some d2 \<Longrightarrow> map_of (entries d2) = (map_of (entries d))(p := None)"
  by (auto simp: unlink_def delete_conv' split: if_splits)

lemma unlink_faulty: "unlink d p = Some d2 \<Longrightarrow> faulty d2 = faulty d"
  by (auto simp: unlink_def split: if_splits)

lemma cleanup_loop_faulty: "faulty (snd (cleanup_loop e fs d n)) = faulty d"
proof (induction fs arbitrary: d n)
  case Nil
  then show ?case by simp
next
  case (Cons a fs)
  obtain name f where a: "a = (name, f)" by (cases a)
  show ?case
  proof (cases "unlink d name")
    case None
    with Cons a show ?thesis by simp
  next
    case (Some d')
    with Cons a unlink_faulty [OF Some] show ?thesis by simp
  qed
qed

lemma cleanup_faulty: "faulty (snd (cleanup_old_reports d now)) = faulty d"
  by (simp add: cleanup_old_reports_def Let_def cleanup_loop_faulty)

lemma cleanup_only_deletes:
  "path_exists (snd (cleanup_old_reports d now)) q \<Longrightarrow> path_exists d q"
  by (auto simp: cleanup_old_reports_def Let_def dest: cleanup_loop_only_deletes)

lemma failed_status:
  assumes hf: "get_report_path t FAILED \<notin> set (faulty d)"
    and hp: "get_report_path t PENDING \<notin> set (faulty d)"
    and nc: "\<not> path_exists d (get_report_path t COMPLETED)"
    and ne: "m \<noteq> []"
  shows "fst (mark_report_failed d t m now) = True
       \<and> get_report_status (snd (mark_report_failed d t m now)) t = (Some FAILED, m)
       \<and> get_report_file_path (snd (mark_report_failed d t m now)) t = None"
proof -
  from hf obtain d1 where w: "write_file d (get_report_path t FAILED) m now = Some d1"
    and f1: "faulty d1 = faulty d"
    using write_file_ok by blast
  note e1 = path_exists_write [OF w]
  note l1 = write_file_lookup [OF w]
  show ?thesis
  proof (cases "path_exists d1 (get_report_path t PENDING)")
    case False
    with w ne have r: "mark_report_failed d t m now = (True, d1)"
      by (simp add: mark_report_failed_def mark_report_failed_ops_def Let_def)
    from False nc ne show ?thesis
      by (simp add: r get_report_status_def get_report_file_path_def Let_def e1 l1)
  next
    case True
    from hp f1 have "get_report_path t PENDING \<notin> set (faulty d1)" by simp
    with True obtain d2 where u: "unlink d1 (get_report_path t PENDING) = Some d2"
      using unlink_ok by blast
    note e2 = path_exists_unlink [OF u]
    note l2 = unlink_lookup [OF u]
    from True w u ne have r: "mark_report_failed d t m now = (True, d2)"
      by (simp add: mark_report_failed_def mark_report_failed_ops_def Let_def)
    from nc ne show ?thesis
      by (simp add: r get_report_status_def get_report_file_path_def Let_def e1 e2 l1 l2)
  qed
qed

lemma try_block_raised:
  "raised_in_block db gen cn fd fh et st = Some e
     \<Longrightarrow> report_try_block db gen d tid cn fd fh et st now = (Inl e, d)"
  by (auto simp: raised_in_block_def report_try_block_def fetch_and_save_def
      split: sum.splits option.splits)

lemma internal_error_msg_nonempty: "internal_error_msg e \<noteq> []"
  by (simp add: internal_error_msg_def)

lemma report_background_returns:
  "fst (report_background db gen d tid cn fd fh et st started now) = Inr ()"
  by (simp add: report_background_def Let_def split: prod.splits sum.splits)

lemma report_background_raised:
  assumes "raised_in_block db gen cn fd fh et st = Some e"
  shows "snd (report_background db gen d tid cn fd fh et st started now)
           = snd (mark_report_failed (snd (cleanup_old_reports d started)) tid
                    (internal_error_msg e) now)"
  by (simp add: report_background_def Let_def try_block_raised [OF assms])

lemma report_background_failed_state:
  assumes r: "raised_in_block db gen cn fd fh et st = Some e"
    and hf: "get_report_path tid FAILED \<notin> set (faulty d)"
    and hp: "get_report_path tid PENDING \<notin> set (faulty d)"
    and nc: "\<not> path_exists d (get_report_path tid COMPLETED)"
  shows "get_report_status (snd (report_background db gen d tid cn fd fh et st started now)) tid
           = (Some FAILED, internal_error_msg e)
       \<and> get_report_file_path
            (snd (report_background db gen d tid cn fd fh et st started now)) tid = None"
proof -
  let ?swept = "snd (cleanup_old_reports d started)"
  from hf hp have "get_report_path tid FAILED \<notin> set (faulty ?swept)"
    "get_report_path tid PENDING \<notin> set (faulty ?swept)"
    by (simp_all add: cleanup_faulty)
  moreover from nc have "\<not> path_exists ?swept (get_report_path tid COMPLETED)"
    using cleanup_only_deletes by blast
  ultimately show ?thesis
    using failed_status [of tid ?swept "internal_error_msg e" now]
    by (simp add: report_background_raised [OF r] internal_error_msg_nonempty)
qed

text \<open>
  C6. For every behaviour of the lookups, the row fetch, the generator and the artifact
  persistence, neither background function raises: both return normally. When one of
  the lookups, the fetch, the generator or \<open>getvalue\<close> raises an exception \<open>e\<close>, the
  function ends with the call \<open>mark_report_failed(task_id, "Error interno al generar el
  reporte: " + str(e))\<close> on the swept directory, and when the marker files of the task
  can be written and the task has no artifact, the task's status is then failed with
  that message.
\<close>

theorem orchestrator_never_raises:
  "fst (generate_excel_report_background db g d tid cn fd fh ip et st started now) = Inr ()
   \<and> fst (generate_installers_excel_report_background db w d tid cn fd fh et st started now) = Inr ()
   \<and> (raised_in_block db (excel_buffer_of g ip) cn fd fh et st = Some e \<longrightarrow>
        snd (generate_excel_report_background db g d tid cn fd fh ip et st started now)
          = snd (mark_report_failed (snd (cleanup_old_reports d started)) tid
                   (internal_error_msg e) now)
        \<and> (get_report_path tid FAILED \<notin> set (faulty d)
             \<and> get_report_path tid PENDING \<notin> set (faulty d)
             \<and> \<not> path_exists d (get_report_path tid COMPLETED) \<longrightarrow>
            get_report_status
              (snd (generate_excel_report_background db g d tid cn fd fh ip et st started now)) tid
              = (Some FAILED, internal_error_msg e)))
   \<and> (raised_in_block db (generate_installers_excel_report w) cn fd fh et st = Some e' \<longrightarrow>
        snd (generate_installers_excel_report_background db w d tid cn fd fh et st started now)
          = snd (mark_report_failed (snd (cleanup_old_reports d started)) tid
                   (internal_error_msg e') now)
        \<and> (get_report_path tid FAILED \<notin> set (faulty d)
             \<and> get_report_path tid PENDING \<notin> set (faulty d)
             \<and> \<not> path_exists d (get_report_path tid COMPLETED) \<longrightarrow>
            get_report_status
              (snd (generate_installers_excel_report_background db w d tid cn fd fh et st started now)) tid
              = (Some FAILED, internal_error_msg e')))"
proof (intro conjI impI)
  show "fst (generate_excel_report_background db g d tid cn fd fh ip et st started now) = Inr ()"
    by (simp add: generate_excel_report_background_def report_background_returns)
  show "fst (generate_installers_excel_report_background db w d tid cn fd fh et st started now)
          = Inr ()"
    by (simp add: generate_installers_excel_report_background_def report_background_returns)
next
  assume r: "raised_in_block db (excel_buffer_of g ip) cn fd fh et st = Some e"
  show "snd (generate_excel_report_background db g d tid cn fd fh ip et st started now)
          = snd (mark_report_failed (snd (cleanup_old_reports d started)) tid
                   (internal_error_msg e) now)"
    by (simp add: generate_excel_report_background_def report_background_raised [OF r])
  assume "get_report_path tid FAILED \<notin> set (faulty d)
             \<and> get_report_path tid PENDING \<notin> set (faulty d)
             \<and> \<not> path_exists d (get_report_path tid COMPLETED)"
  then show "get_report_status
              (snd (generate_excel_report_background db g d tid cn fd fh ip et st started now)) tid
              = (Some FAILED, internal_error_msg e)"
    using report_background_failed_state [OF r, of tid d started now]
    by (simp add: generate_excel_report_background_def)
next
  assume r: "raised_in_block db (generate_installers_excel_report w) cn fd fh et st = Some e'"
  show "snd (generate_installers_excel_report_background db w d tid cn fd fh et st started now)
          = snd (mark_report_failed (snd (cleanup_old_reports d started)) tid
                   (internal_error_msg e') now)"
    by (simp add: generate_installers_excel_report_background_def
        report_background_raised [OF r])
  assume "get_report_path tid FAILED \<notin> set (faulty d)
             \<and> get_report_path tid PENDING \<notin> set (faulty d)
             \<and> \<not> path_exists d (get_report_path tid COMPLETED)"
  then show "get_report_status
              (snd (generate_installers_excel_report_background db w d tid cn fd fh et st started now)) tid
              = (Some FAILED, internal_error_msg e')"
    using report_background_failed_state [OF r, of tid d started now]
    by (simp add: generate_installers_excel_report_background_def)
qed

theorem orchestrator_never_raises_witness:
  "raised_in_block failing_db (excel_buffer_of demo_workbook False) ''Ruta 5'' 0 86400 None None
     = Some (PyException ''OperationalError'' ''connection lost'')
   \<and> raised_in_block failing_db (generate_installers_excel_report demo_installers_workbook)
        ''Ruta 5'' 0 86400 None None
     = Some (PyException ''OperationalError'' ''connection lost'')
   \<and> get_report_path ''t1'' FAILED \<notin> set (faulty pending_t1_dir)
   \<and> get_report_path ''t1'' PENDING \<notin> set (faulty pending_t1_dir)
   \<and> \<not> path_exists pending_t1_dir (get_report_path ''t1'' COMPLETED)
   \<and> fst (generate_excel_report_background failing_db demo_workbook pending_t1_dir ''t1''
            ''Ruta 5'' 0 86400 False None None 100 120) = Inr ()
   \<and> get_report_status
        (snd (generate_excel_report_background failing_db demo_workbook pending_t1_dir ''t1''
               ''Ruta 5'' 0 86400 False None None 100 120)) ''t1''
       = (Some FAILED, ''Error interno al generar el reporte: connection lost'')
   \<and> get_report_status
        (snd (generate_installers_excel_report_background failing_db demo_installers_workbook
               pending_t1_dir ''t1'' ''Ruta 5'' 0 86400 None None 100 120)) ''t1''
       = (Some FAILED, ''Error interno al generar el reporte: connection lost'')"
proof -
  let ?e = "PyException ''OperationalError'' ''connection lost''"
  have c: "get_contract_project_by_id_or_nombre failing_db ''Ruta 5'' = Inr (Some 7)"
    by (simp add: get_contract_project_by_id_or_nombre_def failing_db_def strip_def is_space_def)
  have f: "get_assets_by_datetime_range failing_db 7 0 86400 None None = Inl ?e"
    by (simp add: get_assets_by_datetime_range_def failing_db_def)
  have r1: "raised_in_block failing_db (excel_buffer_of demo_workbook False) ''Ruta 5'' 0 86400 None None
     = Some ?e"
    by (simp add: raised_in_block_def c f)
  have r2: "raised_in_block failing_db (generate_installers_excel_report demo_installers_workbook)
        ''Ruta 5'' 0 86400 None None = Some ?e"
    by (simp add: raised_in_block_def c f)
  have h: "get_report_path ''t1'' FAILED \<notin> set (faulty pending_t1_dir)"
    "get_report_path ''t1'' PENDING \<notin> set (faulty pending_t1_dir)"
    "\<not> path_exists pending_t1_dir (get_report_path ''t1'' COMPLETED)"
    by (simp_all add: pending_t1_dir_def path_exists_def get_report_path.simps)
  have m: "internal_error_msg ?e = ''Error interno al generar el reporte: connection lost''"
    by (simp add: internal_error_msg_def)
  note inst = orchestrator_never_raises [where db = failing_db and g = demo_workbook
      and w = demo_installers_workbook and d = pending_t1_dir and tid = "''t1''"
      and cn = "''Ruta 5''" and fd = 0 and fh = 86400 and ip = False and et = None and st = None
      and started = 100 and now = 120
      and e = "PyException ''OperationalError'' ''connection lost''"
      and e' = "PyException ''OperationalError'' ''connection lost''"]
  from inst have b: "fst (generate_excel_report_background failing_db demo_workbook pending_t1_dir
            ''t1'' ''Ruta 5'' 0 86400 False None None 100 120) = Inr ()"
    by blast
  from inst r1 h have s1: "get_report_status
        (snd (generate_excel_report_background failing_db demo_workbook pending_t1_dir ''t1''
               ''Ruta 5'' 0 86400 False None None 100 120)) ''t1''
       = (Some FAILED, internal_error_msg ?e)"
    by blast
  from inst r2 h have s2: "get_report_status
        (snd (generate_installers_excel_report_background failing_db demo_installers_workbook
               pending_t1_dir ''t1'' ''Ruta 5'' 0 86400 None None 100 120)) ''t1''
       = (Some FAILED, internal_error_msg ?e)"
    by blast
  from r1 r2 h b s1 [unfolded m] s2 [unfolded m] show ?thesis by simp
qed

text \<open>
  C10. On an empty asset list \<open>generate_installers_excel_report\<close> returns \<open>None\<close>.
  So a background installers report whose lookups resolve and whose filter window
  matches no asset ends, without raising, in \<open>mark_report_failed\<close> with the internal
  error message of the \<open>AttributeError\<close> raised by \<open>getvalue\<close>; when the marker files
  of the task can be written and the task has no artifact, its status is then failed
  with that message and it has no artifact to download.
\<close>

theorem empty_installers_report_fails:
  assumes c: "get_contract_project_by_id_or_nombre db cn = Inr (Some c)"
    and et: "case et of None \<Rightarrow> eid = None
             | Some n \<Rightarrow> eid \<noteq> None \<and> get_element_type_by_id_or_nombre db n = Inr eid"
    and rows: "get_assets_by_datetime_range db c fd fh eid st = Inr []"
  shows "generate_installers_excel_report w [] = Inr None
    \<and> generate_installers_excel_report_background db w d tid cn fd fh et st started now
        = (Inr (), snd (mark_report_failed (snd (cleanup_old_reports d started)) tid
                         (internal_error_msg none_getvalue_error) now))
    \<and> (get_report_path tid FAILED \<notin> set (faulty d)
         \<and> get_report_path tid PENDING \<notin> set (faulty d)
         \<and> \<not> path_exists d (get_report_path tid COMPLETED) \<longrightarrow>
        get_report_status
          (snd (generate_installers_excel_report_background db w d tid cn fd fh et st started now)) tid
          = (Some FAILED, internal_error_msg none_getvalue_error)
        \<and> get_report_file_path
          (snd (generate_installers_excel_report_background db w d tid cn fd fh et st started now)) tid
          = None)"
proof -
  have g: "generate_installers_excel_report w [] = Inr None"
    by (simp add: generate_installers_excel_report_def)
  have r: "raised_in_block db (generate_installers_excel_report w) cn fd fh et st
             = Some none_getvalue_error"
  proof (cases et)
    case None
    with c et rows g show ?thesis
      by (simp add: raised_in_block_def getvalue_def)
  next
    case (Some n)
    with et obtain x where "eid = Some x" "get_element_type_by_id_or_nombre db n = Inr (Some x)"
      by auto
    with Some c rows g show ?thesis
      by (simp add: raised_in_block_def getvalue_def)
  qed
  have "fst (generate_installers_excel_report_background db w d tid cn fd fh et st started now) = Inr ()"
    by (simp add: generate_installers_excel_report_background_def report_background_returns)
  moreover have "snd (generate_installers_excel_report_background db w d tid cn fd fh et st started now)
      = snd (mark_report_failed (snd (cleanup_old_reports d started)) tid
                         (internal_error_msg none_getvalue_error) now)"
    by (simp add: generate_installers_excel_report_background_def report_background_raised [OF r])
  ultimately have b: "generate_installers_excel_report_background db w d tid cn fd fh et st started now
        = (Inr (), snd (mark_report_failed (snd (cleanup_old_reports d started)) tid
                         (internal_error_msg none_getvalue_error) now))"
    by (simp add: prod_eq_iff)
  have s: "get_report_path tid FAILED \<notin> set (faulty d)
         \<and> get_report_path tid PENDING \<notin> set (faulty d)
         \<and> \<not> path_exists d (get_report_path tid COMPLETED) \<longrightarrow>
        get_report_status
          (snd (generate_installers_excel_report_background db w d tid cn fd fh et st started now)) tid
          = (Some FAILED, internal_error_msg none_getvalue_error)
        \<and> get_report_file_path
          (snd (generate_installers_excel_report_background db w d tid cn fd fh et st started now)) tid
          = None"
    using report_background_failed_state [OF r, of tid d started now]
    by (simp add: generate_installers_excel_report_background_def)
  from g b s show ?thesis by blast
qed

theorem empty_installers_report_fails_witness:
  "get_contract_project_by_id_or_nombre demo_db ''Ruta 5'' = Inr (Some 7)
   \<and> get_assets_by_datetime_range demo_db 7 0 86400 None None = Inr []
   \<and> fst (generate_installers_excel_report_background demo_db demo_installers_workbook
            pending_t1_dir ''t1'' ''Ruta 5'' 0 86400 None None 100 120) = Inr ()
   \<and> get_report_status
        (snd (generate_installers_excel_report_background demo_db demo_installers_workbook
               pending_t1_dir ''t1'' ''Ruta 5'' 0 86400 None None 100 120)) ''t1''
       = (Some FAILED, ''Error interno al generar el reporte: ''
            @ [CHR 0x27] @ ''NoneType'' @ [CHR 0x27] @ '' object has no attribute ''
            @ [CHR 0x27] @ ''getvalue'' @ [CHR 0x27])
   \<and> get_report_file_path
        (snd (generate_installers_excel_report_background demo_db demo_installers_workbook
               pending_t1_dir ''t1'' ''Ruta 5'' 0 86400 None None 100 120)) ''t1'' = None"
proof -
  have c: "get_contract_project_by_id_or_nombre demo_db ''Ruta 5'' = Inr (Some 7)"
    by (simp add: get_contract_project_by_id_or_nombre_def demo_db_def strip_def is_space_def)
  have e: "case (None :: string option) of None \<Rightarrow> (None :: nat option) = None
             | Some n \<Rightarrow> (None :: nat option) \<noteq> None
                 \<and> get_element_type_by_id_or_nombre demo_db n = Inr None"
    by simp
  have r: "get_assets_by_datetime_range demo_db 7 0 86400 None None = Inr []"
    by (simp add: get_assets_by_datetime_range_def demo_db_def)
  have h: "get_report_path ''t1'' FAILED \<notin> set (faulty pending_t1_dir)"
    "get_report_path ''t1'' PENDING \<notin> set (faulty pending_t1_dir)"
    "\<not> path_exists pending_t1_dir (get_report_path ''t1'' COMPLETED)"
    by (simp_all add: pending_t1_dir_def path_exists_def get_report_path.simps)
  have m: "internal_error_msg none_getvalue_error = ''Error interno al generar el reporte: ''
            @ [CHR 0x27] @ ''NoneType'' @ [CHR 0x27] @ '' object has no attribute ''
            @ [CHR 0x27] @ ''getvalue'' @ [CHR 0x27]"
    by (simp add: internal_error_msg_def none_getvalue_error_def)
  note inst = empty_installers_report_fails [OF c e r, of demo_installers_workbook
      pending_t1_dir "''t1''" 100 120]
  from inst have b: "fst (generate_installers_excel_report_background demo_db
      demo_installers_workbook pending_t1_dir ''t1'' ''Ruta 5'' 0 86400 None None 100 120) = Inr ()"
    by simp
  from inst h have s: "get_report_status
        (snd (generate_installers_excel_report_background demo_db demo_installers_workbook
               pending_t1_dir ''t1'' ''Ruta 5'' 0 86400 None None 100 120)) ''t1''
       = (Some FAILED, internal_error_msg none_getvalue_error)
     \<and> get_report_file_path
        (snd (generate_installers_excel_report_background demo_db demo_installers_workbook
               pending_t1_dir ''t1'' ''Ruta 5'' 0 86400 None None 100 120)) ''t1'' = None"
    by blast
  from c r b s [unfolded m] show ?thesis by simp
qed

section \<open>Properties of the bulk ingestion\<close>

lemma length_py_set_le: "length (py_set (map f rows)) \<le> length rows"
proof -
  have "length (remdups (map f rows)) \<le> length (map f rows)" by (rule length_remdups_leq)
  then show ?thesis by (simp add: py_set_def)
qed

lemma length_set_update_le: "length (set_update a b) \<le> length a + length (py_set b)"
  by (simp add: set_update_def py_set_def)

lemma inserted_plus_conflictive:
  assumes "set r \<subseteq> set b"
  shows "length (py_set r) + length (set_minus (py_set b) (py_set r)) = length (py_set b)"
proof -
  have "length (set_minus (py_set b) (py_set r)) = card ({x. x \<notin> set r} \<inter> set b)"
    by (simp add: set_minus_def py_set_def distinct_length_filter)
  also have "{x. x \<notin> set r} \<inter> set b = set b - set r" by auto
  finally have "length (set_minus (py_set b) (py_set r)) = card (set b - set r)" .
  moreover have "length (py_set r) = card (set r)" "length (py_set b) = card (set b)"
    by (simp_all add: py_set_def length_remdups_card_conv)
  moreover from assms have "card (set r) + card (set b - set r) = card (set b)"
    by (metis List.finite_set card_Diff_subset add.commute card_mono le_add_diff_inverse2)
  ultimately show ?thesis by simp
qed

lemma process_batches_tally:
  assumes "returns_batch_keys store"
  shows "process_batches store bs db st = (Inr st', db')
           \<Longrightarrow> tally st' \<le> tally st + sum_list (map length bs)"
proof (induction bs arbitrary: db st)
  case Nil
  then show ?case by simp
next
  case (Cons batch rest)
  obtain res db1 where ins: "insert_on_conflict_do_nothing store db batch = (res, db1)"
    by (cases "insert_on_conflict_do_nothing store db batch")
  let ?b = "py_set (map id_interno batch)"
  have lb: "length ?b \<le> length batch" by (rule length_py_set_le)
  show ?case
  proof (cases res)
    case (Inr returned)
    let ?i = "py_set returned"
    let ?st1 = "st\<lparr>all_inserted_id_internos := set_update (all_inserted_id_internos st) ?i\<rparr>"
    let ?c = "set_minus ?b ?i"
    let ?st2 = "if ?c \<noteq> [] then ?st1\<lparr>all_conflictive_id_internos :=
                            all_conflictive_id_internos ?st1 @ ?c\<rparr> else ?st1"
    from assms ins Inr have "set returned \<subseteq> set (map id_interno batch)"
      unfolding returns_batch_keys_def by blast
    then have eq: "length ?i + length ?c = length ?b" by (rule inserted_plus_conflictive)
    have "tally ?st2 \<le> tally st + length ?i + length ?c"
      using length_set_update_le [of "all_inserted_id_internos st" "py_set returned"]
      by (auto simp: tally_def py_set_def remdups_remdups)
    with eq lb have step: "tally ?st2 \<le> tally st + length batch" by simp
    from Cons.prems ins Inr have "process_batches store rest db1 ?st2 = (Inr st', db')"
      by (simp add: Let_def)
    then have "tally st' \<le> tally ?st2 + sum_list (map length rest)" by (rule Cons.IH)
    with step show ?thesis by simp
  next
    case (Inl e)
    let ?stf = "st\<lparr>all_failed_id_internos := all_failed_id_internos st @ ?b\<rparr>"
    have step: "tally ?stf \<le> tally st + length batch" using lb by (simp add: tally_def)
    show ?thesis
    proof (cases e)
      case (IntegrityError code)
      with Cons.prems ins Inl have "process_batches store rest db1 ?stf = (Inr st', db')" by simp
      then have "tally st' \<le> tally ?stf + sum_list (map length rest)" by (rule Cons.IH)
      with step show ?thesis by simp
    next
      case (DataError code)
      with Cons.prems ins Inl have "process_batches store rest db1 ?stf = (Inr st', db')" by simp
      then have "tally st' \<le> tally ?stf + sum_list (map length rest)" by (rule Cons.IH)
      with step show ?thesis by simp
    next
      case (DBAPIError code)
      with Cons.prems ins Inl show ?thesis by simp
    next
      case (OtherException msg)
      with Cons.prems ins Inl show ?thesis by simp
    qed
  qed
qed

lemma split_batches_total: "sum_list (map length (split_batches n xs)) \<le> length xs"
proof (induction n xs rule: split_batches.induct)
  case (1 n xs)
  show ?case
  proof (cases "n = 0 \<or> xs = []")
    case True
    then show ?thesis by (simp add: split_batches.simps)
  next
    case False
    with 1 have "sum_list (map length (split_batches n (drop n xs))) \<le> length xs - n" by simp
    with False show ?thesis by (subst split_batches.simps) auto
  qed
qed

lemma distinct_keys_count:
  assumes "distinct (map f rows)" and "f ` set rows \<subseteq> set ks"
  shows "length rows \<le> length ks"
proof -
  from assms(1) have "length rows = card (f ` set rows)"
    by (metis distinct_card length_map set_map)
  also from assms(2) have "\<dots> \<le> card (set ks)" by (simp add: card_mono)
  also have "\<dots> \<le> length ks" by (rule card_length)
  finally show ?thesis .
qed

lemma upsert_conflictive_tally:
  assumes "upsert_needs_distinct_keys store"
    and "upsert_conflictive store db assets st = (Inr (cc, failed), db')"
  shows "cc + length failed
           \<le> length (all_conflictive_id_internos st) + length (all_failed_id_internos st)"
proof (cases "all_conflictive_id_internos st = []")
  case True
  with assms(2) show ?thesis by (simp add: upsert_conflictive_def)
next
  case False
  let ?rows = "filter (\<lambda>asset. id_interno asset \<in> set (all_conflictive_id_internos st)) assets"
  obtain res db1 where up: "insert_on_conflict_do_update store db ?rows = (res, db1)"
    by (cases "insert_on_conflict_do_update store db ?rows")
  show ?thesis
  proof (cases res)
    case (Inr u)
    with assms(1) up have "distinct (map id_interno ?rows)"
      unfolding upsert_needs_distinct_keys_def by (cases u) blast
    then have "length ?rows \<le> length (all_conflictive_id_internos st)"
      by (rule distinct_keys_count) auto
    moreover from assms(2) False up Inr have "cc = length ?rows" "failed = all_failed_id_internos st"
      by (simp_all add: upsert_conflictive_def Let_def)
    ultimately show ?thesis by simp
  next
    case (Inl e)
    with assms(2) False up show ?thesis
      by (cases e) (auto simp: upsert_conflictive_def Let_def)
  qed
qed

lemma concat_split_batches: "0 < n \<Longrightarrow> concat (split_batches n xs) = xs"
proof (induction n xs rule: split_batches.induct)
  case (1 n xs)
  show ?case
  proof (cases "xs = []")
    case True
    then show ?thesis by (simp add: split_batches.simps)
  next
    case False
    with 1 have "concat (split_batches n (drop n xs)) = drop n xs" by simp
    with False 1(2) show ?thesis by (subst split_batches.simps) simp
  qed
qed

lemma set_update_disjoint:
  "set a \<inter> set b = {} \<Longrightarrow> set_update a b = a @ remdups b"
proof -
  assume "set a \<inter> set b = {}"
  then have "filter (\<lambda>x. x \<notin> set a) (remdups b) = remdups b"
    by (auto simp: filter_id_conv)
  then show ?thesis by (simp add: set_update_def)
qed

lemma batch_step_exact:
  assumes sub: "set returned \<subseteq> set keys" and dk: "distinct keys"
    and da: "distinct (a @ c @ f)" and disj: "set (a @ c @ f) \<inter> set keys = {}"
  shows "distinct (set_update a (py_set returned)
                     @ (c @ set_minus (py_set keys) (py_set returned)) @ f)
       \<and> set (set_update a (py_set returned)
                     @ (c @ set_minus (py_set keys) (py_set returned)) @ f)
           = set (a @ c @ f) \<union> set keys"
proof -
  from sub disj have "set a \<inter> set (py_set returned) = {}"
    by (auto simp: py_set_def)
  then have u: "set_update a (py_set returned) = a @ remdups returned"
    by (simp add: set_update_disjoint py_set_def remdups_remdups)
  have m: "set_minus (py_set keys) (py_set returned) = filter (\<lambda>x. x \<notin> set returned) keys"
    using dk by (simp add: set_minus_def py_set_def distinct_remdups_id)
  from sub dk da disj show ?thesis
    unfolding u m by auto
qed

lemma process_batches_exact:
  assumes "returns_batch_keys store"
  shows "process_batches store bs db st = (Inr st', db')
     \<Longrightarrow> distinct (map id_interno (concat bs))
     \<Longrightarrow> distinct (tracked_ids st)
     \<Longrightarrow> set (tracked_ids st) \<inter> set (map id_interno (concat bs)) = {}
     \<Longrightarrow> distinct (tracked_ids st')
         \<and> set (tracked_ids st') = set (tracked_ids st) \<union> set (map id_interno (concat bs))"
proof (induction bs arbitrary: db st)
  case Nil
  then show ?case by simp
next
  case (Cons batch rest)
  obtain res db1 where ins: "insert_on_conflict_do_nothing store db batch = (res, db1)"
    by (cases "insert_on_conflict_do_nothing store db batch")
  let ?keys = "map id_interno batch"
  let ?later = "map id_interno (concat rest)"
  from Cons.prems(2) have dk: "distinct ?keys" and dl: "distinct ?later"
    and kl: "set ?keys \<inter> set ?later = {}"
    by auto
  from Cons.prems(4) have sk: "set (tracked_ids st) \<inter> set ?keys = {}"
    and sl: "set (tracked_ids st) \<inter> set ?later = {}"
    by auto
  have next_state: "distinct (tracked_ids st') \<and> set (tracked_ids st') = set (tracked_ids st2) \<union> set ?later"
    if run: "process_batches store rest db1 st2 = (Inr st', db')"
      and d2: "distinct (tracked_ids st2)"
      and s2: "set (tracked_ids st2) = set (tracked_ids st) \<union> set ?keys" for st2
  proof -
    from s2 sl kl have "set (tracked_ids st2) \<inter> set ?later = {}" by blast
    with run dl d2 show ?thesis by (rule Cons.IH)
  qed
  show ?case
  proof (cases res)
    case (Inr returned)
    let ?i = "py_set returned"
    let ?st1 = "st\<lparr>all_inserted_id_internos := set_update (all_inserted_id_internos st) ?i\<rparr>"
    let ?c = "set_minus (py_set ?keys) ?i"
    let ?st2 = "if ?c \<noteq> [] then ?st1\<lparr>all_conflictive_id_internos :=
                            all_conflictive_id_internos ?st1 @ ?c\<rparr> else ?st1"
    from assms ins Inr have sub: "set returned \<subseteq> set ?keys"
      unfolding returns_batch_keys_def by blast
    have t2: "tracked_ids ?st2 = set_update (all_inserted_id_internos st) ?i
                @ (all_conflictive_id_internos st @ ?c) @ all_failed_id_internos st"
      by (simp add: tracked_ids_def)
    from batch_step_exact [OF sub dk, of "all_inserted_id_internos st"
        "all_conflictive_id_internos st" "all_failed_id_internos st"] Cons.prems(3) sk
    have e: "distinct (tracked_ids ?st2)
           \<and> set (tracked_ids ?st2) = set (tracked_ids st) \<union> set ?keys"
      unfolding t2 by (simp add: tracked_ids_def)
    from Cons.prems(1) ins Inr have "process_batches store rest db1 ?st2 = (Inr st', db')"
      by (simp add: Let_def)
    from next_state [OF this] e
    have "distinct (tracked_ids st') \<and> set (tracked_ids st') = set (tracked_ids ?st2) \<union> set ?later"
      by blast
    with e show ?thesis by auto
  next
    case (Inl e)
    let ?stf = "st\<lparr>all_failed_id_internos := all_failed_id_internos st @ py_set ?keys\<rparr>"
    from dk have pk: "py_set ?keys = ?keys" by (simp add: py_set_def distinct_remdups_id)
    from Cons.prems(3) sk dk have ef: "distinct (tracked_ids ?stf)
           \<and> set (tracked_ids ?stf) = set (tracked_ids st) \<union> set ?keys"
      unfolding pk by (auto simp: tracked_ids_def)
    have "process_batches store rest db1 ?stf = (Inr st', db')"
      using Cons.prems(1) ins Inl by (cases e) simp_all
    from next_state [OF this] ef
    have "distinct (tracked_ids st') \<and> set (tracked_ids st') = set (tracked_ids ?stf) \<union> set ?later"
      by blast
    with ef show ?thesis by auto
  qed
qed

lemma filter_keys_exact:
  assumes "distinct (map f rows)" and "distinct ks" and "set ks \<subseteq> f ` set rows"
  shows "length (filter (\<lambda>r. f r \<in> set ks) rows) = length ks"
proof -
  let ?sel = "filter (\<lambda>r. f r \<in> set ks) rows"
  from assms(1) have "distinct (map f ?sel)" by (rule distinct_map_filter)
  then have "length ?sel = card (set (map f ?sel))"
    by (metis distinct_card length_map)
  also from assms(3) have "set (map f ?sel) = set ks" by auto
  also from assms(2) have "card (set ks) = length ks" by (rule distinct_card)
  finally show ?thesis .
qed

lemma upsert_conflictive_exact:
  assumes "upsert_conflictive store db assets st = (Inr (cc, failed), db')"
    and "distinct (map id_interno assets)"
    and "distinct (all_conflictive_id_internos st)"
    and "set (all_conflictive_id_internos st) \<subseteq> id_interno ` set assets"
  shows "cc + length failed
           = length (all_conflictive_id_internos st) + length (all_failed_id_internos st)"
proof (cases "all_conflictive_id_internos st = []")
  case True
  with assms(1) show ?thesis by (simp add: upsert_conflictive_def)
next
  case False
  let ?rows = "filter (\<lambda>asset. id_interno asset \<in> set (all_conflictive_id_internos st)) assets"
  obtain res db1 where up: "insert_on_conflict_do_update store db ?rows = (res, db1)"
    by (cases "insert_on_conflict_do_update store db ?rows")
  have len: "length ?rows = length (all_conflictive_id_internos st)"
    using assms(2-4) by (rule filter_keys_exact)
  show ?thesis
  proof (cases res)
    case (Inr u)
    with assms(1) False up have "cc = length ?rows" "failed = all_failed_id_internos st"
      by (simp_all add: upsert_conflictive_def Let_def)
    with len show ?thesis by simp
  next
    case (Inl e)
    with assms(1) False up show ?thesis
      by (cases e) (auto simp: upsert_conflictive_def Let_def)
  qed
qed

lemma pg_returns_batch_keys: "returns_batch_keys pg_store"
  by (auto simp: returns_batch_keys_def pg_store_def pg_insert_def Let_def split: if_splits)

lemma pg_upsert_distinct: "upsert_needs_distinct_keys pg_store"
  by (auto simp: upsert_needs_distinct_keys_def pg_store_def pg_upsert_def split: if_splits)

lemma split2: "split_batches 2 [a, b, c, d] = [[a, b], [c, d]]"
  by (simp add: split_batches.simps)

text \<open>
  C5 (as amended). On a store whose conditional insert returns only keys of the batch
  and whose upsert refuses a statement with repeated keys, every summary that
  \<open>create_assets_bulk\<close> returns satisfies created + conflictive + failed \<le> total, and
  total is the number of submitted rows. When the natural keys of the input are
  pairwise distinct and the batch size is positive, the sum equals the total, whether
  or not batches failed or the conflictive upsert failed: a gap comes from rows with
  repeated natural keys, not from the reclassification of the conflictive ids.
\<close>

theorem bulk_summary_bounded:
  assumes contract: "returns_batch_keys store" "upsert_needs_distinct_keys store"
    and result: "create_assets_bulk store db assets batch_size = (Inr s, db')"
  shows "count_of s ''created'' + count_of s ''conflictive'' + count_of s ''failed''
           \<le> count_of s ''total''
       \<and> count_of s ''total'' = length assets
       \<and> (distinct (map id_interno assets) \<and> 0 < batch_size \<longrightarrow>
            count_of s ''created'' + count_of s ''conflictive'' + count_of s ''failed''
              = count_of s ''total'')"
proof (cases "assets = []")
  case True
  with result show ?thesis by (auto simp: create_assets_bulk_def count_of_def)
next
  case False
  let ?bs = "if batch_size < 0 then [] else split_batches (nat batch_size) assets"
  let ?st0 = "\<lparr>all_conflictive_id_internos = [], all_inserted_id_internos = [],
                    all_failed_id_internos = []\<rparr>"
  from False result have nz: "batch_size \<noteq> 0"
    by (auto simp: create_assets_bulk_def Let_def)
  obtain r1 db1 where p: "process_batches store ?bs db ?st0 = (r1, db1)"
    by (cases "process_batches store ?bs db ?st0")
  from False nz result p obtain st where r1: "r1 = Inr st"
    by (cases r1) (auto simp: create_assets_bulk_def Let_def)
  obtain r2 db2 where u: "upsert_conflictive store db1 assets st = (r2, db2)"
    by (cases "upsert_conflictive store db1 assets st")
  from False nz result p r1 u obtain cc failed where r2: "r2 = Inr (cc, failed)"
    by (cases r2) (auto simp: create_assets_bulk_def Let_def)
  from False nz result p r1 u r2 have s: "s = [(''created'', Count (length (all_inserted_id_internos st))),
                           (''conflictive'', Count cc),
                           (''total'', Count (length assets)),
                           (''failed'', Count (length failed)),
                           (''failed_id_internos'', Ids (sort failed))]"
    by (auto simp: create_assets_bulk_def Let_def)
  from p r1 have "tally st \<le> tally ?st0 + sum_list (map length ?bs)"
    using process_batches_tally [OF contract(1)] by blast
  moreover have "sum_list (map length ?bs) \<le> length assets"
    by (simp add: split_batches_total)
  ultimately have t: "tally st \<le> length assets" by (simp add: tally_def)
  from u r2 have "cc + length failed
           \<le> length (all_conflictive_id_internos st) + length (all_failed_id_internos st)"
    using upsert_conflictive_tally [OF contract(2)] by blast
  with t have le: "length (all_inserted_id_internos st) + cc + length failed \<le> length assets"
    by (simp add: tally_def)
  have eq: "length (all_inserted_id_internos st) + cc + length failed = length assets"
    if dk: "distinct (map id_interno assets)" and pos: "0 < batch_size"
  proof -
    from pos have bs: "?bs = split_batches (nat batch_size) assets"
      and cat: "concat ?bs = assets"
      by (simp_all add: concat_split_batches)
    from p r1 dk cat have ex: "distinct (tracked_ids st)
         \<and> set (tracked_ids st) = set (tracked_ids ?st0) \<union> set (map id_interno (concat ?bs))"
      using process_batches_exact [OF contract(1), of ?bs db ?st0 st db1]
      by (simp add: tracked_ids_def)
    then have dt: "distinct (tracked_ids st)"
      and st: "set (tracked_ids st) = set (map id_interno assets)"
      using cat by (simp_all add: tracked_ids_def)
    from dt st dk have "length (tracked_ids st) = length assets"
      by (metis distinct_card length_map)
    then have tl: "tally st = length assets" by (simp add: tally_def tracked_ids_def)
    from dt have dc: "distinct (all_conflictive_id_internos st)"
      by (simp add: tracked_ids_def)
    from st have sc: "set (all_conflictive_id_internos st) \<subseteq> id_interno ` set assets"
      by (auto simp: tracked_ids_def)
    from u r2 have "upsert_conflictive store db1 assets st = (Inr (cc, failed), db2)" by simp
    from this dk dc sc have "cc + length failed
           = length (all_conflictive_id_internos st) + length (all_failed_id_internos st)"
      by (rule upsert_conflictive_exact)
    with tl show ?thesis by (simp add: tally_def)
  qed
  from le eq show ?thesis by (simp add: s count_of_def)
qed

lemma mixed_eval:
  "create_assets_bulk pg_store \<lparr>asset_keys = [2], conflictive_keys = []\<rparr> mixed_rows 2
     = (Inr mixed_summary, \<lparr>asset_keys = [2, 1], conflictive_keys = [2]\<rparr>)"
  by (simp add: create_assets_bulk_def mixed_rows_def mixed_summary_def split2 Let_def
      pg_store_def pg_insert_def pg_upsert_def upsert_conflictive_def row_def
      py_set_def set_minus_def set_update_def)

theorem bulk_summary_bounded_witness:
  "returns_batch_keys pg_store \<and> upsert_needs_distinct_keys pg_store
   \<and> create_assets_bulk pg_store \<lparr>asset_keys = [2], conflictive_keys = []\<rparr> mixed_rows 2
        = (Inr mixed_summary, \<lparr>asset_keys = [2, 1], conflictive_keys = [2]\<rparr>)
   \<and> distinct (map id_interno mixed_rows)
   \<and> count_of mixed_summary ''created'' + count_of mixed_summary ''conflictive''
        + count_of mixed_summary ''failed'' = count_of mixed_summary ''total''
   \<and> count_of mixed_summary ''total'' = length mixed_rows"
proof -
  have d: "distinct (map id_interno mixed_rows)"
    by (simp add: mixed_rows_def row_def)
  have p: "(0::int) < 2" by simp
  from bulk_summary_bounded [OF pg_returns_batch_keys pg_upsert_distinct mixed_eval] d p
  have "count_of mixed_summary ''created'' + count_of mixed_summary ''conflictive''
        + count_of mixed_summary ''failed'' = count_of mixed_summary ''total''
      \<and> count_of mixed_summary ''total'' = length mixed_rows"
    by blast
  with pg_returns_batch_keys pg_upsert_distinct mixed_eval d show ?thesis by blast
qed

text \<open>
  C5 as stated fails on its account of the gap: two rows with the natural key 7 in one
  batch, on empty tables, give created = 1 and total = 2 with nothing failed and no
  conflictive upsert, so the gap is a row the conditional insert skipped, not an id
  counted twice by the reclassification.
\<close>

theorem bulk_gap_counterexample:
  "create_assets_bulk pg_store no_rows [row 7 1, row 7 1] 200
     = (Inr [(''created'', Count 1), (''conflictive'', Count 0), (''total'', Count 2),
             (''failed'', Count 0), (''failed_id_internos'', Ids [])],
        \<lparr>asset_keys = [7], conflictive_keys = []\<rparr>)"
  by (simp add: create_assets_bulk_def split_batches.simps Let_def no_rows_def
      pg_store_def pg_insert_def pg_upsert_def upsert_conflictive_def row_def
      py_set_def set_minus_def set_update_def)

text \<open>
  The bound rests on the store's refusal of repeated keys in the upsert: on a store
  that accepts them, the same key in two batches is counted as created once and as
  conflictive twice.
\<close>

lemma lenient_upsert_exceeds_total:
  "create_assets_bulk lenient_store no_rows [row 7 1, row 7 1] 1
     = (Inr [(''created'', Count 1), (''conflictive'', Count 2), (''total'', Count 2),
             (''failed'', Count 0), (''failed_id_internos'', Ids [])],
        \<lparr>asset_keys = [7], conflictive_keys = [7]\<rparr>)"
  by (simp add: create_assets_bulk_def split_batches.simps Let_def no_rows_def
      lenient_store_def pg_insert_def lenient_upsert_def upsert_conflictive_def row_def
      py_set_def set_minus_def set_update_def)

text \<open>
  C8. On the empty sequence \<open>create_assets_bulk\<close> returns at once and leaves the state
  of every store as it was (also of a store that records each statement in its state):
  no batch is formed and no statement is executed. The summary it returns holds the three
  counts created, conflictive and total, all zero, and no failed count; the route, which
  reads \<open>result["failed"]\<close>, then answers with a 500.
\<close>

theorem empty_input_summary:
  "create_assets_bulk store db [] batch_size
     = (Inr [(''created'', Count 0), (''conflictive'', Count 0), (''total'', Count 0)], db)
   \<and> map_of [(''created'', Count 0), (''conflictive'', Count 0), (''total'', Count 0)] ''failed''
       = None
   \<and> create_assets_bulk_route store db [] batch_size
       = (Inl (HTTPException 500 ''Error creating assets in bulk''), db)"
  by (simp add: create_assets_bulk_def create_assets_bulk_route_def)

theorem empty_input_summary_witness:
  "create_assets_bulk pg_store no_rows [] 200
     = (Inr [(''created'', Count 0), (''conflictive'', Count 0), (''total'', Count 0)], no_rows)
   \<and> map_of [(''created'', Count 0), (''conflictive'', Count 0), (''total'', Count 0)] ''failed''
       = None
   \<and> create_assets_bulk_route pg_store no_rows [] 200
       = (Inl (HTTPException 500 ''Error creating assets in bulk''), no_rows)"
  by (rule empty_input_summary)

section \<open>Properties of the photo reconciliation\<close>

lemma plan_resolved:
  "build_upload_plan ad cd ps = (plan, nf) \<Longrightarrow> item \<in> set plan
     \<Longrightarrow> ad (plan_id item) \<noteq> None \<or> cd (plan_id item) \<noteq> None"
proof (induction ps arbitrary: plan nf)
  case Nil
  then show ?case by simp
next
  case (Cons p ps)
  obtain k photo where p: "p = (k, photo)" by (cases p)
  obtain plan0 nf0 where r: "build_upload_plan ad cd ps = (plan0, nf0)"
    by (cases "build_upload_plan ad cd ps")
  note ih = Cons.IH [OF r]
  from Cons.prems p r ih show ?case
    by (auto simp: make_plan_item_def split: option.splits)
qed

lemma plan_not_found:
  "build_upload_plan ad cd ps = (plan, nf) \<Longrightarrow> ad x = None \<Longrightarrow> cd x = None
     \<Longrightarrow> filter (\<lambda>r. response_id r = x) nf
           = replicate (count_list (map fst ps) x) (not_found_response x)"
proof (induction ps arbitrary: plan nf)
  case Nil
  then show ?case by simp
next
  case (Cons p ps)
  obtain k photo where p: "p = (k, photo)" by (cases p)
  obtain plan0 nf0 where r: "build_upload_plan ad cd ps = (plan0, nf0)"
    by (cases "build_upload_plan ad cd ps")
  from Cons.IH [OF r Cons.prems(2,3)]
  have ih: "filter (\<lambda>r. response_id r = x) nf0
              = replicate (count_list (map fst ps) x) (not_found_response x)" .
  show ?case
  proof (cases "k = x")
    case True
    with Cons.prems p r have "nf = not_found_response x # nf0" by simp
    with True p ih show ?thesis by (simp add: not_found_response_def)
  next
    case False
    with Cons.prems(1) p r have "nf = nf0 \<or> nf = not_found_response k # nf0"
      by (auto split: option.splits)
    with False p ih show ?thesis by (auto simp: not_found_response_def)
  qed
qed

lemma save_photos_keys:
  "save_photos world w plan = ((saved, failures), w', evs)
     \<Longrightarrow> set saved \<subseteq> set plan
       \<and> (\<forall>r\<in>set failures. response_id r \<in> plan_id ` set plan)
       \<and> (\<forall>ev\<in>set evs. event_key ev \<in> Some ` plan_id ` set plan)"
proof (induction plan arbitrary: w saved failures w' evs)
  case Nil
  then show ?case by simp
next
  case (Cons item rest)
  obtain err w1 where wr: "write_photo world w (is_conflictive item) (plan_photo_name item)
             (data (plan_photo item)) = (err, w1)"
    by (cases "write_photo world w (is_conflictive item) (plan_photo_name item)
             (data (plan_photo item))")
  obtain saved0 failures0 w2 evs0 where
    r: "save_photos world w1 rest = ((saved0, failures0), w2, evs0)"
    by (cases "save_photos world w1 rest") auto
  note ih = Cons.IH [OF r]
  from Cons.prems wr r ih show ?case
    by (cases err) auto
qed

lemma bulk_update_keys:
  "bulk_update_asset_photos world w items c = (res, w', evs)
     \<Longrightarrow> \<forall>ev\<in>set evs. event_key ev \<in> Some ` plan_id ` set items"
proof (induction items arbitrary: w res w' evs)
  case Nil
  then show ?case by simp
next
  case (Cons item rest)
  obtain r1 w1 where ex: "execute_update world w c (plan_id item) (plan_photo_name item) = (r1, w1)"
    by (cases "execute_update world w c (plan_id item) (plan_photo_name item)")
  show ?case
  proof (cases r1)
    case (Inl e)
    with Cons.prems ex show ?thesis by auto
  next
    case (Inr updated_id)
    obtain r2 w2 evs0 where r: "bulk_update_asset_photos world w1 rest c = (r2, w2, evs0)"
      by (cases "bulk_update_asset_photos world w1 rest c")
    note ih = Cons.IH [OF r]
    from Cons.prems ex Inr r ih show ?thesis
      by (cases r2) auto
  qed
qed

lemma update_both_tables_keys:
  assumes "update_both_tables world w saved = (res, w', evs)"
  shows "\<forall>ev\<in>set evs. event_key ev = None \<or> event_key ev \<in> Some ` plan_id ` set saved"
proof -
  let ?reg = "filter (\<lambda>item. \<not> is_conflictive item) saved"
  let ?con = "filter is_conflictive saved"
  obtain r1 w1 evs1 where a: "bulk_update_asset_photos world w ?reg False = (r1, w1, evs1)"
    by (cases "bulk_update_asset_photos world w ?reg False")
  obtain r2 w2 evs2 where b: "bulk_update_asset_photos world w1 ?con True = (r2, w2, evs2)"
    by (cases "bulk_update_asset_photos world w1 ?con True")
  from bulk_update_keys [OF a] have k1: "\<forall>ev\<in>set evs1. event_key ev \<in> Some ` plan_id ` set saved"
    by auto
  from bulk_update_keys [OF b] have k2: "\<forall>ev\<in>set evs2. event_key ev \<in> Some ` plan_id ` set saved"
    by auto
  from assms a b have "set evs \<subseteq> set evs1 \<union> set evs2 \<union> {Commit}"
    by (auto simp: update_both_tables_def Let_def split: sum.splits prod.splits option.splits)
  with k1 k2 show ?thesis by auto
qed

lemma update_database_keys:
  assumes "update_database world w saved = (upd, w', evs)"
  shows "\<forall>ev\<in>set evs. event_key ev = None \<or> event_key ev \<in> Some ` plan_id ` set saved"
proof (cases "saved = []")
  case True
  with assms show ?thesis by (simp add: update_database_def)
next
  case False
  obtain res w1 evs1 where u: "update_both_tables world w saved = (res, w1, evs1)"
    by (cases "update_both_tables world w saved")
  from assms False u have "set evs \<subseteq> set evs1 \<union> {Rollback}"
    by (cases res) (auto simp: update_database_def)
  with update_both_tables_keys [OF u] show ?thesis by auto
qed

lemma reconcile_keys: "response_id ` set (reconcile upd saved) \<subseteq> plan_id ` set saved"
  by (auto simp: reconcile_def inconsistent_response_def)

lemma filter_none: "x \<notin> f ` set xs \<Longrightarrow> filter (\<lambda>r. f r = x) xs = []"
  by (induction xs) auto

lemmas photo_eval =
  bulk_photo_upload_def validate_request_def validate_request_limits_def
  validate_photo_and_asset_length_def validate_photo_extension_def validate_photo_size_def
  extension_of_def last_segment_def lower_def dict_by_id_interno_def demo_photo_world_def
  demo_photo_config_def jpg_photo_def png_photo_def row_def make_plan_item_def
  generate_photo_name_def zero_pad_def str_nat.simps str_int_def update_database_def
  update_both_tables_def reconcile_def not_found_response_def inconsistent_response_def
  success_response_def saved_name_def regular_item_def conflictive_item_def Let_def

end
